theory Spec2Isabelle
  imports Complex_Main
begin

section \<open>Scalars\<close>

text \<open>
  YAX.Math computes with the C++ type \<^verbatim>\<open>float\<close>. The theory reads it in two ways.
  From here to the section on matrices a float is a real number and every arithmetic
  operation is exact: this reading serves the statements about the branch a function takes,
  the components it reads and the error it raises (\<^verbatim>\<open>Slerp\<close>,
  \<^verbatim>\<open>CreatePerspectiveFieldOfView\<close>, the subtraction operators, \<^verbatim>\<open>Clamp\<close>, \<^verbatim>\<open>Transform\<close>,
  \<^verbatim>\<open>WrapAngle\<close>, the equality operators). There a quotient whose divisor is zero has no
  meaning (HOL gives it the value 0, the program an infinity or a NaN); no theorem below
  rests on the value of one.
  In the section on single precision a float is an IEEE 754 binary32 value and every
  operation rounds: this reading serves the statements about the values that \<^verbatim>\<open>Invert\<close>,
  \<^verbatim>\<open>Lerp\<close> and \<^verbatim>\<open>Decompose\<close> return, which rounding, overflow and underflow decide.
\<close>

type_synonym float = real

subsection \<open>MathHelper\<close>

text \<open>
  \<^verbatim>\<open>MathHelper::Pi = static_cast<float>(M_PI)\<close>: the single-precision number nearest to
  the circle constant, 13176795 / 2^22. \<^verbatim>\<open>TwoPi = 2 * MathHelper::Pi\<close>.
\<close>

definition Pi :: float where
  "Pi = 13176795 / 4194304"

definition TwoPi :: float where
  "TwoPi = 2 * Pi"

definition MathHelper_Max :: "float \<Rightarrow> float \<Rightarrow> float" where
  "MathHelper_Max val1 val2 = (if val1 > val2 then val1 else val2)"

definition MathHelper_Min :: "float \<Rightarrow> float \<Rightarrow> float" where
  "MathHelper_Min val1 val2 = (if val1 < val2 then val1 else val2)"

definition MathHelper_Clamp :: "float \<Rightarrow> float \<Rightarrow> float \<Rightarrow> float" where
  "MathHelper_Clamp val mn mx = MathHelper_Max mn (MathHelper_Min mx val)"

definition MathHelper_Lerp :: "float \<Rightarrow> float \<Rightarrow> float \<Rightarrow> float" where
  "MathHelper_Lerp val1 val2 t = val1 + (val2 - val1) * t"

text \<open>
  This exact reading of \<^verbatim>\<open>MathHelper::Lerp\<close> enters the statement about the two branches of
  \<^verbatim>\<open>Slerp\<close>, through \<^verbatim>\<open>Quaternion::Lerp\<close>. The values that \<^verbatim>\<open>Lerp\<close> returns at its end
  points are those of \<open>MathHelper_Lerpf\<close>, in the section on single precision.
\<close>

text \<open>
  \<^verbatim>\<open>std::fmodf\<close> of the C library: \<open>x - n * y\<close> where \<open>n\<close> is the quotient \<open>x / y\<close>
  with its fractional part cut off, so the result has the sign of \<open>x\<close>.
\<close>

definition trunc :: "real \<Rightarrow> int" where
  "trunc r = (if r < 0 then \<lceil>r\<rceil> else \<lfloor>r\<rfloor>)"

definition fmodf :: "float \<Rightarrow> float \<Rightarrow> float" where
  "fmodf x y = x - of_int (trunc (x / y)) * y"

definition MathHelper_WrapAngle :: "float \<Rightarrow> float" where
  "MathHelper_WrapAngle val =
     (let v = fmodf val TwoPi in if v > Pi then - (TwoPi - v) else v)"

section \<open>Vectors\<close>

text \<open>
  The structs' fields are \<^verbatim>\<open>X\<close>, \<^verbatim>\<open>Y\<close>, \<^verbatim>\<open>Z\<close>, \<^verbatim>\<open>W\<close>; a record's fields are constants
  of the theory, so each struct's fields carry its dimension.
\<close>

record Vector2 =
  X2 :: float
  Y2 :: float

record Vector3 =
  X3 :: float
  Y3 :: float
  Z3 :: float

record Vector4 =
  X4 :: float
  Y4 :: float
  Z4 :: float
  W4 :: float

subsection \<open>Vector2 operators\<close>

text \<open>
  A compound assignment takes the value of \<^verbatim>\<open>*this\<close> and returns its new value; the
  statements of its body are the updates, in the source's order.
\<close>

definition Vector2_sub_assign :: "Vector2 \<Rightarrow> Vector2 \<Rightarrow> Vector2" where
  "Vector2_sub_assign this rhs =
     (let s1 = this\<lparr>X2 := X2 this - X2 rhs\<rparr>;
          s2 = s1\<lparr>X2 := X2 s1 - Y2 rhs\<rparr>
      in s2)"

definition Vector2_sub :: "Vector2 \<Rightarrow> Vector2 \<Rightarrow> Vector2" where
  "Vector2_sub lhs rhs = \<lparr>X2 = X2 lhs - X2 rhs, Y2 = Y2 lhs - Y2 rhs\<rparr>"

definition Vector2_eq :: "Vector2 \<Rightarrow> Vector2 \<Rightarrow> bool" where
  "Vector2_eq lhs rhs = (X2 lhs = X2 rhs \<and> Y2 lhs = Y2 rhs)"

subsection \<open>Vector3 operators\<close>

definition Vector3_sub_assign :: "Vector3 \<Rightarrow> Vector3 \<Rightarrow> Vector3" where
  "Vector3_sub_assign this v =
     (let s1 = this\<lparr>X3 := X3 this - X3 v\<rparr>;
          s2 = s1\<lparr>Y3 := Y3 s1 - Y3 v\<rparr>;
          s3 = s2\<lparr>Z3 := Z3 s2 - Z3 v\<rparr>
      in s3)"

definition Vector3_add :: "Vector3 \<Rightarrow> Vector3 \<Rightarrow> Vector3" where
  "Vector3_add lhs rhs = \<lparr>X3 = X3 lhs + X3 rhs, Y3 = Y3 lhs + Y3 rhs, Z3 = Z3 lhs + Z3 rhs\<rparr>"

definition Vector3_neg :: "Vector3 \<Rightarrow> Vector3" where
  "Vector3_neg rhs = \<lparr>X3 = - X3 rhs, Y3 = - Y3 rhs, Z3 = - Z3 rhs\<rparr>"

definition Vector3_sub :: "Vector3 \<Rightarrow> Vector3 \<Rightarrow> Vector3" where
  "Vector3_sub lhs rhs = Vector3_add lhs (Vector3_neg rhs)"

definition Vector3_scale :: "Vector3 \<Rightarrow> float \<Rightarrow> Vector3" where
  "Vector3_scale lhs rhs = \<lparr>X3 = X3 lhs * rhs, Y3 = Y3 lhs * rhs, Z3 = Z3 lhs * rhs\<rparr>"

definition Vector3_div :: "Vector3 \<Rightarrow> float \<Rightarrow> Vector3" where
  "Vector3_div lhs rhs = \<lparr>X3 = X3 lhs / rhs, Y3 = Y3 lhs / rhs, Z3 = Z3 lhs / rhs\<rparr>"

definition Vector3_eq :: "Vector3 \<Rightarrow> Vector3 \<Rightarrow> bool" where
  "Vector3_eq lhs rhs = (X3 lhs = X3 rhs \<and> Y3 lhs = Y3 rhs \<and> Z3 lhs = Z3 rhs)"

definition Vector3_LengthSquared :: "Vector3 \<Rightarrow> float" where
  "Vector3_LengthSquared v = X3 v * X3 v + Y3 v * Y3 v + Z3 v * Z3 v"

definition Vector3_Length :: "Vector3 \<Rightarrow> float" where
  "Vector3_Length v = sqrt (Vector3_LengthSquared v)"

subsection \<open>Vector4 operators\<close>

definition Vector4_sub_assign :: "Vector4 \<Rightarrow> Vector4 \<Rightarrow> Vector4" where
  "Vector4_sub_assign this v =
     (let s1 = this\<lparr>X4 := X4 this / X4 v\<rparr>;
          s2 = s1\<lparr>Y4 := Y4 s1 / Y4 v\<rparr>;
          s3 = s2\<lparr>Z4 := Z4 s2 / Z4 v\<rparr>;
          s4 = s3\<lparr>W4 := W4 s3 / W4 v\<rparr>
      in s4)"

definition Vector4_sub :: "Vector4 \<Rightarrow> Vector4 \<Rightarrow> Vector4" where
  "Vector4_sub lhs rhs = Vector4_sub_assign lhs rhs"

definition Vector4_eq :: "Vector4 \<Rightarrow> Vector4 \<Rightarrow> bool" where
  "Vector4_eq lhs rhs =
     (X4 lhs = X4 rhs \<and> Y4 lhs = Y4 rhs \<and> Z4 lhs = Z4 rhs \<and> W4 lhs = W4 rhs)"

definition Vector4_Clamp :: "Vector4 \<Rightarrow> Vector4 \<Rightarrow> Vector4 \<Rightarrow> Vector4" where
  "Vector4_Clamp val mn mx =
     \<lparr>X4 = MathHelper_Clamp (X4 val) (X4 mn) (X4 mx),
      Y4 = MathHelper_Clamp (X4 val) (X4 mn) (X4 mx),
      Z4 = MathHelper_Clamp (X4 val) (X4 mn) (X4 mx),
      W4 = MathHelper_Clamp (X4 val) (X4 mn) (X4 mx)\<rparr>"

section \<open>Quaternion\<close>

record Quaternion =
  QX :: float
  QY :: float
  QZ :: float
  QW :: float

text \<open>\<^verbatim>\<open>Quaternion::Quaternion(Vector3 xyz, float w)\<close>.\<close>

definition Quaternion_of_Vector3 :: "Vector3 \<Rightarrow> float \<Rightarrow> Quaternion" where
  "Quaternion_of_Vector3 xyz w = \<lparr>QX = X3 xyz, QY = Y3 xyz, QZ = Z3 xyz, QW = w\<rparr>"

definition Quaternion_Identity :: Quaternion where
  "Quaternion_Identity = \<lparr>QX = 0, QY = 0, QZ = 0, QW = 1\<rparr>"

definition Quaternion_Conjugate :: "Quaternion \<Rightarrow> Quaternion" where
  "Quaternion_Conjugate this = this\<lparr>QX := - QX this, QY := - QY this, QZ := - QZ this\<rparr>"

definition Quaternion_LengthSquared :: "Quaternion \<Rightarrow> float" where
  "Quaternion_LengthSquared this =
     QX this * QX this + QY this * QY this + QZ this * QZ this + QW this * QW this"

definition Quaternion_Length :: "Quaternion \<Rightarrow> float" where
  "Quaternion_Length this = sqrt (Quaternion_LengthSquared this)"

definition Quaternion_Dot :: "Quaternion \<Rightarrow> Quaternion \<Rightarrow> float" where
  "Quaternion_Dot q1 q2 = QX q1 * QX q2 + QY q1 * QY q2 + QZ q1 * QZ q2 + QW q1 * QW q2"

definition Quaternion_mul_assign :: "Quaternion \<Rightarrow> Quaternion \<Rightarrow> Quaternion" where
  "Quaternion_mul_assign this q =
     (let x = QW this * QX q + QX this * QW q + QY this * QZ q - QZ this * QY q;
          y = QW this * QY q - QX this * QZ q + QY this * QW q + QZ this * QX q;
          z = QW this * QZ q + QX this * QY q - QY this * QX q + QZ this * QW q;
          w = QW this * QW q - QX this * QX q - QY this * QY q - QZ this * QZ q
      in \<lparr>QX = x, QY = y, QZ = z, QW = w\<rparr>)"

definition Quaternion_scale_assign :: "Quaternion \<Rightarrow> float \<Rightarrow> Quaternion" where
  "Quaternion_scale_assign this f =
     this\<lparr>QX := QX this * f, QY := QY this * f, QZ := QZ this * f, QW := QW this * f\<rparr>"

definition Quaternion_div_assign :: "Quaternion \<Rightarrow> float \<Rightarrow> Quaternion" where
  "Quaternion_div_assign this f =
     this\<lparr>QX := QX this / f, QY := QY this / f, QZ := QZ this / f, QW := QW this / f\<rparr>"

definition Quaternion_mul :: "Quaternion \<Rightarrow> Quaternion \<Rightarrow> Quaternion" where
  "Quaternion_mul lhs rhs = Quaternion_mul_assign lhs rhs"

definition Quaternion_scale :: "Quaternion \<Rightarrow> float \<Rightarrow> Quaternion" where
  "Quaternion_scale lhs rhs = Quaternion_scale_assign lhs rhs"

definition Quaternion_Inverse :: "Quaternion \<Rightarrow> Quaternion" where
  "Quaternion_Inverse q =
     (let q1 = Quaternion_Conjugate q
      in Quaternion_div_assign q1 (Quaternion_LengthSquared q1))"

definition Quaternion_Lerp :: "Quaternion \<Rightarrow> Quaternion \<Rightarrow> float \<Rightarrow> Quaternion" where
  "Quaternion_Lerp from to t =
     \<lparr>QX = MathHelper_Lerp (QX from) (QX to) t,
      QY = MathHelper_Lerp (QY from) (QY to) t,
      QZ = MathHelper_Lerp (QZ from) (QZ to) t,
      QW = MathHelper_Lerp (QW from) (QW to) t\<rparr>"

text \<open>
  The helpers of \<^verbatim>\<open>Slerp\<close>. \<^verbatim>\<open>std::acosf\<close>, \<^verbatim>\<open>std::logf\<close>, \<^verbatim>\<open>std::sinf\<close>,
  \<^verbatim>\<open>std::cosf\<close> and \<^verbatim>\<open>std::expf\<close> are the real functions.
\<close>

definition QLn :: "Quaternion \<Rightarrow> Quaternion" where
  "QLn q =
     (let len = Quaternion_Length q;
          theta = QW q / len;
          v = \<lparr>X3 = QX q, Y3 = QY q, Z3 = QZ q\<rparr>
      in Quaternion_of_Vector3 (Vector3_scale v (arccos theta)) (ln len))"

definition QExp :: "Quaternion \<Rightarrow> Quaternion" where
  "QExp q =
     (let v = \<lparr>X3 = QX q, Y3 = QY q, Z3 = QZ q\<rparr>;
          len = Vector3_Length v
      in Quaternion_scale
           (Quaternion_of_Vector3 (Vector3_scale (Vector3_div v len) (sin len)) (cos len))
           (exp (QW q)))"

definition QPow :: "Quaternion \<Rightarrow> float \<Rightarrow> Quaternion" where
  "QPow q p = QExp (Quaternion_scale (QLn q) p)"

definition Quaternion_Slerp :: "Quaternion \<Rightarrow> Quaternion \<Rightarrow> float \<Rightarrow> Quaternion" where
  "Quaternion_Slerp from to t =
     (let d = Quaternion_Dot from to
      in if d < 0.999 then Quaternion_Lerp from to t
         else Quaternion_mul (QPow (Quaternion_mul to (Quaternion_Inverse from)) t) from)"

text \<open>
  Modelled from the spec: \<^verbatim>\<open>MathHelper::EqualWithinEpsilon\<close> is declared in
  MathHelper.h and has no definition in the source files. Its documentation and the
  specification give \<open>|val1 - val2| < Epsilon\<close>. \<^verbatim>\<open>MathHelper::Epsilon\<close> is a mutable
  global: the model passes its current value as the first argument.
\<close>

definition EqualWithinEpsilon :: "float \<Rightarrow> float \<Rightarrow> float \<Rightarrow> bool" where
  "EqualWithinEpsilon Epsilon val1 val2 = (\<bar>val1 - val2\<bar> < Epsilon)"

definition Quaternion_eq :: "float \<Rightarrow> Quaternion \<Rightarrow> Quaternion \<Rightarrow> bool" where
  "Quaternion_eq Epsilon lhs rhs =
     (EqualWithinEpsilon Epsilon (QX lhs) (QX rhs)
      \<and> EqualWithinEpsilon Epsilon (QY lhs) (QY rhs)
      \<and> EqualWithinEpsilon Epsilon (QZ lhs) (QZ rhs)
      \<and> EqualWithinEpsilon Epsilon (QW lhs) (QW rhs))"

section \<open>Matrix\<close>

record Matrix =
  M11 :: float
  M12 :: float
  M13 :: float
  M14 :: float
  M21 :: float
  M22 :: float
  M23 :: float
  M24 :: float
  M31 :: float
  M32 :: float
  M33 :: float
  M34 :: float
  M41 :: float
  M42 :: float
  M43 :: float
  M44 :: float

definition Matrix_eq :: "Matrix \<Rightarrow> Matrix \<Rightarrow> bool" where
  "Matrix_eq lhs rhs =
     (M11 lhs = M11 rhs \<and> M12 lhs = M12 rhs \<and> M13 lhs = M13 rhs \<and> M14 lhs = M14 rhs \<and>
      M21 lhs = M21 rhs \<and> M22 lhs = M22 rhs \<and> M23 lhs = M23 rhs \<and> M24 lhs = M24 rhs \<and>
      M31 lhs = M31 rhs \<and> M32 lhs = M32 rhs \<and> M33 lhs = M33 rhs \<and> M34 lhs = M34 rhs \<and>
      M41 lhs = M41 rhs \<and> M42 lhs = M42 rhs \<and> M43 lhs = M43 rhs \<and> M44 lhs = M44 rhs)"

definition Matrix_CreateTranslation :: "float \<Rightarrow> float \<Rightarrow> float \<Rightarrow> Matrix" where
  "Matrix_CreateTranslation xT yT zT =
     \<lparr>M11 = 1, M12 = 0, M13 = 0, M14 = 0,
      M21 = 0, M22 = 1, M23 = 0, M24 = 0,
      M31 = 0, M32 = 0, M33 = 1, M34 = 0,
      M41 = xT, M42 = yT, M43 = zT, M44 = 1\<rparr>"

text \<open>
  \<^verbatim>\<open>throw std::out_of_range(msg)\<close> is the error value \<open>out_of_range msg\<close>; a function
  that can throw returns \<open>error + result\<close>.
\<close>

datatype error = out_of_range string

definition Matrix_CreatePerspectiveFieldOfView ::
  "float \<Rightarrow> float \<Rightarrow> float \<Rightarrow> float \<Rightarrow> error + Matrix" where
  "Matrix_CreatePerspectiveFieldOfView fov aR zN zF =
     (if \<not> (fov \<ge> 0 \<and> fov \<le> Pi) then
        Inl (out_of_range ''fieldOfView must be between 0 and Pi radians (0 and 180 degrees)'')
      else if zN > zF then
        Inl (out_of_range ''zNear must be less than or equal to zFar'')
      else if zN < 0 \<or> zF < 0 then
        Inl (out_of_range ''zNear and zFar must be greater than 0'')
      else
        (let yScale = cos (fov / 2) / sin (fov / 2);
             xScale = yScale / aR
         in Inr \<lparr>M11 = xScale, M12 = 0, M13 = 0, M14 = 0,
                 M21 = 0, M22 = yScale, M23 = 0, M24 = 0,
                 M31 = 0, M32 = 0, M33 = zF / (zN - zF), M34 = - 1,
                 M41 = 0, M42 = 0, M43 = zN * zF / (zN - zF), M44 = 0\<rparr>))"

subsection \<open>Transforming a Vector3 by a Matrix\<close>

definition Vector3_Transform :: "Vector3 \<Rightarrow> Matrix \<Rightarrow> Vector3" where
  "Vector3_Transform vec mat =
     \<lparr>X3 = X3 vec * M11 mat + Y3 vec * M21 mat + Z3 vec * M31 mat + M41 mat,
      Y3 = X3 vec * M12 mat + Y3 vec * M22 mat + Z3 vec * M32 mat + M42 mat,
      Z3 = X3 vec * M13 mat + Y3 vec * M23 mat + Z3 vec * M33 mat + M41 mat\<rparr>"

section \<open>Single precision\<close>

text \<open>
  A binary32 value is a finite number, given by its sign (\<open>True\<close> for minus) and its
  magnitude, so that \<open>+0\<close> and \<open>-0\<close> are two values; or an infinity with its sign; or NaN.
\<close>

datatype float32 = Finite bool real | Infinity bool | NaN

text \<open>
  Rounding to nearest, ties to even. The floats around a magnitude \<open>m\<close> are the multiples of
  \<open>2 ^ ulp_exp m\<close>: 24 significant bits from the leading bit of \<open>m\<close> for a normal number, the
  fixed spacing \<open>2 ^ - 149\<close> below \<open>2 ^ - 126\<close> (subnormal numbers). \<open>round_mag\<close> rounds a
  magnitude to that grid, \<open>pack\<close> makes the result of an operation from its sign and its exact
  magnitude: an infinity when the rounded magnitude reaches \<open>2 ^ 128\<close>.
\<close>

definition ulp_exp :: "real \<Rightarrow> int" where
  "ulp_exp m = max \<lfloor>log 2 m\<rfloor> (- 126) - 23"

definition round_even :: "real \<Rightarrow> int" where
  "round_even q =
     (let f = \<lfloor>q\<rfloor>; d = q - of_int f
      in if d < 1 / 2 then f else if 1 / 2 < d then f + 1 else if even f then f else f + 1)"

definition round_mag :: "real \<Rightarrow> real" where
  "round_mag m =
     (if m = 0 then 0
      else of_int (round_even (m / 2 powr of_int (ulp_exp m))) * 2 powr of_int (ulp_exp m))"

definition pack :: "bool \<Rightarrow> real \<Rightarrow> float32" where
  "pack s m = (let r = round_mag m in if 2 ^ 128 \<le> r then Infinity s else Finite s r)"

text \<open>
  \<open>valof\<close> is the real number a finite value stands for. \<open>Finite s m\<close> is a float when \<open>m\<close> is
  non-negative and on the grid (\<open>is_float32\<close>). \<open>lit r\<close> is the float of a literal or of a
  converted integer.
\<close>

definition sval :: "bool \<Rightarrow> real \<Rightarrow> real" where
  "sval s m = (if s then - m else m)"

fun valof :: "float32 \<Rightarrow> real" where
  "valof (Finite s m) = sval s m"
| "valof (Infinity s) = 0"
| "valof NaN = 0"

fun is_Finite :: "float32 \<Rightarrow> bool" where
  "is_Finite (Finite s m) = True"
| "is_Finite (Infinity s) = False"
| "is_Finite NaN = False"


definition representable :: "real \<Rightarrow> bool" where
  "representable r = (round_mag \<bar>r\<bar> = \<bar>r\<bar> \<and> \<bar>r\<bar> < 2 ^ 128)"

fun is_float32 :: "float32 \<Rightarrow> bool" where
  "is_float32 (Finite s m) = (0 \<le> m \<and> representable m)"
| "is_float32 (Infinity s) = False"
| "is_float32 NaN = False"

definition lit :: "real \<Rightarrow> float32" where
  "lit r = pack (r < 0) \<bar>r\<bar>"

text \<open>
  The operations \<^verbatim>\<open>-x\<close>, \<^verbatim>\<open>std::abs\<close>, \<^verbatim>\<open>+\<close>, \<^verbatim>\<open>-\<close>, \<^verbatim>\<open>*\<close>, \<^verbatim>\<open>/\<close>, \<^verbatim>\<open>std::sqrt\<close>, \<^verbatim>\<open>==\<close>, \<^verbatim>\<open><\<close> and
  \<^verbatim>\<open><=\<close> of IEEE 754: each arithmetic operation computes the exact result and rounds it
  once. An exact sum zero is \<open>-0\<close> only when both operands are \<open>-0\<close>; the sign of a product
  or quotient is the exclusive or of the signs; \<open>0 * infinity\<close>, \<open>0 / 0\<close>,
  \<open>infinity - infinity\<close>, \<open>infinity / infinity\<close> and the square root of a negative number are
  NaN; a comparison with NaN is false, and the two zeros are equal. This is the arithmetic
  of a compiler that evaluates a float expression operation by operation in single
  precision (\<^verbatim>\<open>FLT_EVAL_METHOD\<close> 0, no fused multiply-add).
\<close>

fun fneg :: "float32 \<Rightarrow> float32" where
  "fneg (Finite s m) = Finite (\<not> s) m"
| "fneg (Infinity s) = Infinity (\<not> s)"
| "fneg NaN = NaN"


fun fadd :: "float32 \<Rightarrow> float32 \<Rightarrow> float32" where
  "fadd (Finite s1 m1) (Finite s2 m2) =
     (let v = sval s1 m1 + sval s2 m2
      in if v = 0 then Finite (s1 \<and> s2) 0 else pack (v < 0) \<bar>v\<bar>)"
| "fadd (Finite s1 m1) (Infinity s2) = Infinity s2"
| "fadd (Infinity s1) (Finite s2 m2) = Infinity s1"
| "fadd (Infinity s1) (Infinity s2) = (if s1 = s2 then Infinity s1 else NaN)"
| "fadd NaN y = NaN"
| "fadd x NaN = NaN"

definition fsub :: "float32 \<Rightarrow> float32 \<Rightarrow> float32" where
  "fsub x y = fadd x (fneg y)"

fun fmul :: "float32 \<Rightarrow> float32 \<Rightarrow> float32" where
  "fmul (Finite s1 m1) (Finite s2 m2) = pack (s1 \<noteq> s2) (m1 * m2)"
| "fmul (Finite s1 m1) (Infinity s2) = (if m1 = 0 then NaN else Infinity (s1 \<noteq> s2))"
| "fmul (Infinity s1) (Finite s2 m2) = (if m2 = 0 then NaN else Infinity (s1 \<noteq> s2))"
| "fmul (Infinity s1) (Infinity s2) = Infinity (s1 \<noteq> s2)"
| "fmul NaN y = NaN"
| "fmul x NaN = NaN"



fun feq :: "float32 \<Rightarrow> float32 \<Rightarrow> bool" where
  "feq (Finite s1 m1) (Finite s2 m2) = (sval s1 m1 = sval s2 m2)"
| "feq (Infinity s1) (Infinity s2) = (s1 = s2)"
| "feq x y = False"



subsection \<open>The structs\<close>

text \<open>
  The structs once more, with binary32 fields; the field names are in lower case.
\<close>

record Vector2f =
  x2 :: float32
  y2 :: float32


record Vector4f =
  x4 :: float32
  y4 :: float32
  z4 :: float32
  w4 :: float32

record Quaternionf =
  qx :: float32
  qy :: float32
  qz :: float32
  qw :: float32

record Matrixf =
  m11 :: float32
  m12 :: float32
  m13 :: float32
  m14 :: float32
  m21 :: float32
  m22 :: float32
  m23 :: float32
  m24 :: float32
  m31 :: float32
  m32 :: float32
  m33 :: float32
  m34 :: float32
  m41 :: float32
  m42 :: float32
  m43 :: float32
  m44 :: float32

subsection \<open>Lerp\<close>

text \<open>
  \<^verbatim>\<open>MathHelper::Lerp\<close> returns \<^verbatim>\<open>val1 + (val2 - val1) * t\<close>. \<^verbatim>\<open>Vector2::Lerp\<close> returns
  \<^verbatim>\<open>v1 + (v2 - v1)*t\<close> through the operators of Vector2; \<^verbatim>\<open>Vector4::Lerp\<close>,
  \<^verbatim>\<open>Quaternion::Lerp\<close> and \<^verbatim>\<open>Matrix::Lerp\<close> call \<^verbatim>\<open>MathHelper::Lerp\<close> on each component.
  The source files define no \<^verbatim>\<open>Vector3::Lerp\<close>. \<^verbatim>\<open>==\<close> on Vector2, Vector4 and Matrix
  compares the components with \<^verbatim>\<open>==\<close>.
\<close>

definition MathHelper_Lerpf :: "float32 \<Rightarrow> float32 \<Rightarrow> float32 \<Rightarrow> float32" where
  "MathHelper_Lerpf val1 val2 t = fadd val1 (fmul (fsub val2 val1) t)"

definition Vector2f_add :: "Vector2f \<Rightarrow> Vector2f \<Rightarrow> Vector2f" where
  "Vector2f_add lhs rhs = \<lparr>x2 = fadd (x2 lhs) (x2 rhs), y2 = fadd (y2 lhs) (y2 rhs)\<rparr>"

definition Vector2f_sub :: "Vector2f \<Rightarrow> Vector2f \<Rightarrow> Vector2f" where
  "Vector2f_sub lhs rhs = \<lparr>x2 = fsub (x2 lhs) (x2 rhs), y2 = fsub (y2 lhs) (y2 rhs)\<rparr>"

definition Vector2f_scale :: "Vector2f \<Rightarrow> float32 \<Rightarrow> Vector2f" where
  "Vector2f_scale lhs rhs = \<lparr>x2 = fmul (x2 lhs) rhs, y2 = fmul (y2 lhs) rhs\<rparr>"

definition Vector2f_eq :: "Vector2f \<Rightarrow> Vector2f \<Rightarrow> bool" where
  "Vector2f_eq lhs rhs = (feq (x2 lhs) (x2 rhs) \<and> feq (y2 lhs) (y2 rhs))"

definition Vector2f_Lerp :: "Vector2f \<Rightarrow> Vector2f \<Rightarrow> float32 \<Rightarrow> Vector2f" where
  "Vector2f_Lerp v1 v2 t = Vector2f_add v1 (Vector2f_scale (Vector2f_sub v2 v1) t)"

definition Vector4f_eq :: "Vector4f \<Rightarrow> Vector4f \<Rightarrow> bool" where
  "Vector4f_eq lhs rhs =
     (feq (x4 lhs) (x4 rhs) \<and> feq (y4 lhs) (y4 rhs)
      \<and> feq (z4 lhs) (z4 rhs) \<and> feq (w4 lhs) (w4 rhs))"

definition Vector4f_Lerp :: "Vector4f \<Rightarrow> Vector4f \<Rightarrow> float32 \<Rightarrow> Vector4f" where
  "Vector4f_Lerp f to t =
     \<lparr>x4 = MathHelper_Lerpf (x4 f) (x4 to) t,
      y4 = MathHelper_Lerpf (y4 f) (y4 to) t,
      z4 = MathHelper_Lerpf (z4 f) (z4 to) t,
      w4 = MathHelper_Lerpf (w4 f) (w4 to) t\<rparr>"

definition Quaternionf_Lerp :: "Quaternionf \<Rightarrow> Quaternionf \<Rightarrow> float32 \<Rightarrow> Quaternionf" where
  "Quaternionf_Lerp from to t =
     \<lparr>qx = MathHelper_Lerpf (qx from) (qx to) t,
      qy = MathHelper_Lerpf (qy from) (qy to) t,
      qz = MathHelper_Lerpf (qz from) (qz to) t,
      qw = MathHelper_Lerpf (qw from) (qw to) t\<rparr>"

definition Matrixf_Lerp :: "Matrixf \<Rightarrow> Matrixf \<Rightarrow> float32 \<Rightarrow> Matrixf" where
  "Matrixf_Lerp from to t =
     \<lparr>m11 = MathHelper_Lerpf (m11 from) (m11 to) t,
      m12 = MathHelper_Lerpf (m12 from) (m12 to) t,
      m13 = MathHelper_Lerpf (m13 from) (m13 to) t,
      m14 = MathHelper_Lerpf (m14 from) (m14 to) t,
      m21 = MathHelper_Lerpf (m21 from) (m21 to) t,
      m22 = MathHelper_Lerpf (m22 from) (m22 to) t,
      m23 = MathHelper_Lerpf (m23 from) (m23 to) t,
      m24 = MathHelper_Lerpf (m24 from) (m24 to) t,
      m31 = MathHelper_Lerpf (m31 from) (m31 to) t,
      m32 = MathHelper_Lerpf (m32 from) (m32 to) t,
      m33 = MathHelper_Lerpf (m33 from) (m33 to) t,
      m34 = MathHelper_Lerpf (m34 from) (m34 to) t,
      m41 = MathHelper_Lerpf (m41 from) (m41 to) t,
      m42 = MathHelper_Lerpf (m42 from) (m42 to) t,
      m43 = MathHelper_Lerpf (m43 from) (m43 to) t,
      m44 = MathHelper_Lerpf (m44 from) (m44 to) t\<rparr>"

subsection \<open>Determinant, product and Invert\<close>








definition Matrixf_eq :: "Matrixf \<Rightarrow> Matrixf \<Rightarrow> bool" where
  "Matrixf_eq lhs rhs =
     (feq (m11 lhs) (m11 rhs) \<and> feq (m12 lhs) (m12 rhs)
      \<and> feq (m13 lhs) (m13 rhs) \<and> feq (m14 lhs) (m14 rhs)
      \<and> feq (m21 lhs) (m21 rhs) \<and> feq (m22 lhs) (m22 rhs)
      \<and> feq (m23 lhs) (m23 rhs) \<and> feq (m24 lhs) (m24 rhs)
      \<and> feq (m31 lhs) (m31 rhs) \<and> feq (m32 lhs) (m32 rhs)
      \<and> feq (m33 lhs) (m33 rhs) \<and> feq (m34 lhs) (m34 rhs)
      \<and> feq (m41 lhs) (m41 rhs) \<and> feq (m42 lhs) (m42 rhs)
      \<and> feq (m43 lhs) (m43 rhs) \<and> feq (m44 lhs) (m44 rhs))"



subsection \<open>Decompose\<close>




section \<open>Predicates and reference values for the properties\<close>











fun intf :: "real \<Rightarrow> float32 \<Rightarrow> bool" where
  "intf B (Finite s m) = (m \<in> \<int> \<and> 0 \<le> m \<and> m \<le> B)"
| "intf B (Infinity s) = False"
| "intf B NaN = False"


text \<open>
  For the end points of \<^verbatim>\<open>Lerp\<close>. \<open>finite_difference a b\<close>: \<open>a\<close> is a finite float and the
  computed difference \<open>b - a\<close> is finite. \<open>exact_difference a b\<close>: \<open>a\<close> and \<open>b\<close> are finite
  floats and their difference is a float, so that \<open>b - a\<close> is computed without rounding.
  The \<open>rel\<close> predicates apply a relation to the components of two structs.
\<close>

definition finite_difference :: "float32 \<Rightarrow> float32 \<Rightarrow> bool" where
  "finite_difference a b = (is_float32 a \<and> is_Finite (fsub b a))"

definition exact_difference :: "float32 \<Rightarrow> float32 \<Rightarrow> bool" where
  "exact_difference a b = (is_float32 a \<and> is_float32 b \<and> representable (valof b - valof a))"

definition Vector2f_rel :: "(float32 \<Rightarrow> float32 \<Rightarrow> bool) \<Rightarrow> Vector2f \<Rightarrow> Vector2f \<Rightarrow> bool" where
  "Vector2f_rel R a b = (R (x2 a) (x2 b) \<and> R (y2 a) (y2 b))"

definition Vector4f_rel :: "(float32 \<Rightarrow> float32 \<Rightarrow> bool) \<Rightarrow> Vector4f \<Rightarrow> Vector4f \<Rightarrow> bool" where
  "Vector4f_rel R a b =
     (R (x4 a) (x4 b) \<and> R (y4 a) (y4 b) \<and> R (z4 a) (z4 b) \<and> R (w4 a) (w4 b))"

definition Quaternionf_rel ::
  "(float32 \<Rightarrow> float32 \<Rightarrow> bool) \<Rightarrow> Quaternionf \<Rightarrow> Quaternionf \<Rightarrow> bool" where
  "Quaternionf_rel R a b =
     (R (qx a) (qx b) \<and> R (qy a) (qy b) \<and> R (qz a) (qz b) \<and> R (qw a) (qw b))"

definition Matrixf_rel :: "(float32 \<Rightarrow> float32 \<Rightarrow> bool) \<Rightarrow> Matrixf \<Rightarrow> Matrixf \<Rightarrow> bool" where
  "Matrixf_rel R a b =
     (R (m11 a) (m11 b) \<and> R (m12 a) (m12 b)
      \<and> R (m13 a) (m13 b) \<and> R (m14 a) (m14 b)
      \<and> R (m21 a) (m21 b) \<and> R (m22 a) (m22 b)
      \<and> R (m23 a) (m23 b) \<and> R (m24 a) (m24 b)
      \<and> R (m31 a) (m31 b) \<and> R (m32 a) (m32 b)
      \<and> R (m33 a) (m33 b) \<and> R (m34 a) (m34 b)
      \<and> R (m41 a) (m41 b) \<and> R (m42 a) (m42 b)
      \<and> R (m43 a) (m43 b) \<and> R (m44 a) (m44 b))"



section \<open>Auxiliary facts\<close>

subsection \<open>Subtraction of vectors\<close>

lemma Vector3_sub_assign_componentwise:
  "Vector3_sub_assign a b = \<lparr>X3 = X3 a - X3 b, Y3 = Y3 a - Y3 b, Z3 = Z3 a - Z3 b\<rparr>"
  by (simp add: Vector3_sub_assign_def)

lemma Vector3_sub_componentwise:
  "Vector3_sub a b = \<lparr>X3 = X3 a - X3 b, Y3 = Y3 a - Y3 b, Z3 = Z3 a - Z3 b\<rparr>"
  by (simp add: Vector3_sub_def Vector3_add_def Vector3_neg_def)

lemma Vector2_sub_componentwise:
  "Vector2_sub a b = \<lparr>X2 = X2 a - X2 b, Y2 = Y2 a - Y2 b\<rparr>"
  by (simp add: Vector2_sub_def)

text \<open>What the two other compound operators compute, at every input.\<close>

lemma Vector2_sub_assign_computes:
  "Vector2_sub_assign a b = \<lparr>X2 = X2 a - X2 b - Y2 b, Y2 = Y2 a\<rparr>"
  by (simp add: Vector2_sub_assign_def)

lemma Vector4_sub_assign_computes:
  "Vector4_sub_assign a b
     = \<lparr>X4 = X4 a / X4 b, Y4 = Y4 a / Y4 b, Z4 = Z4 a / Z4 b, W4 = W4 a / W4 b\<rparr>"
  by (simp add: Vector4_sub_assign_def)

subsection \<open>The range of fmodf\<close>

lemma fmodf_nonneg:
  assumes "0 \<le> x" and "0 < y"
  shows "0 \<le> fmodf x y \<and> fmodf x y < y"
proof -
  from assms have "0 \<le> x / y" by simp
  then have t: "trunc (x / y) = \<lfloor>x / y\<rfloor>"
    by (simp add: trunc_def)
  have "of_int \<lfloor>x / y\<rfloor> * y \<le> x"
    using assms by (simp add: pos_le_divide_eq[symmetric])
  moreover have "x < (of_int \<lfloor>x / y\<rfloor> + 1) * y"
    using assms by (simp add: pos_divide_less_eq[symmetric])
  ultimately show ?thesis
    by (simp add: fmodf_def t algebra_simps)
qed

lemma fmodf_nonpos:
  assumes "x \<le> 0" and "0 < y"
  shows "- y < fmodf x y \<and> fmodf x y \<le> 0"
proof (cases "x / y < 0")
  case True
  then have t: "trunc (x / y) = \<lceil>x / y\<rceil>"
    by (simp add: trunc_def)
  have "x \<le> of_int \<lceil>x / y\<rceil> * y"
    using assms by (simp add: pos_divide_le_eq[symmetric])
  moreover have "(of_int \<lceil>x / y\<rceil> - 1) * y < x"
    using assms ceiling_correct[of "x / y"] by (simp add: pos_less_divide_eq[symmetric])
  ultimately show ?thesis
    by (simp add: fmodf_def t algebra_simps)
next
  case False
  with assms have "x = 0"
    by (simp add: divide_less_0_iff)
  with assms show ?thesis
    by (simp add: fmodf_def trunc_def)
qed

lemma Pi_pos: "0 < Pi"
  by (simp add: Pi_def)

lemma TwoPi_pos: "0 < TwoPi"
  by (simp add: TwoPi_def Pi_def)

lemma WrapAngle_congruent:
  "\<exists>k::int. MathHelper_WrapAngle val = val + of_int k * TwoPi"
proof (cases "fmodf val TwoPi > Pi")
  case True
  then have "MathHelper_WrapAngle val = val + of_int (- trunc (val / TwoPi) - 1) * TwoPi"
    by (simp add: MathHelper_WrapAngle_def Let_def fmodf_def algebra_simps)
  then show ?thesis by blast
next
  case False
  then have "MathHelper_WrapAngle val = val + of_int (- trunc (val / TwoPi)) * TwoPi"
    by (simp add: MathHelper_WrapAngle_def Let_def fmodf_def algebra_simps)
  then show ?thesis by blast
qed

lemma WrapAngle_range:
  "- TwoPi < MathHelper_WrapAngle val \<and> MathHelper_WrapAngle val \<le> Pi"
proof (cases "0 \<le> val")
  case True
  from fmodf_nonneg[OF True TwoPi_pos] Pi_pos show ?thesis
    by (auto simp: MathHelper_WrapAngle_def Let_def TwoPi_def)
next
  case False
  then have "val \<le> 0" by simp
  from fmodf_nonpos[OF this TwoPi_pos] Pi_pos show ?thesis
    by (auto simp: MathHelper_WrapAngle_def Let_def TwoPi_def)
qed

lemma WrapAngle_range_nonneg:
  assumes "0 \<le> val"
  shows "- Pi < MathHelper_WrapAngle val"
  using fmodf_nonneg[OF assms TwoPi_pos] Pi_pos
  by (auto simp: MathHelper_WrapAngle_def Let_def TwoPi_def)

subsection \<open>The adjugate and the determinant\<close>







subsection \<open>The logarithm and exponential of Slerp at two inputs\<close>

lemma exp_ln_sqrt2: "exp (ln (sqrt 2) * 2) = (2::real)"
proof -
  have "ln (sqrt 2) * 2 = ln (sqrt 2) + ln (sqrt (2::real))"
    by simp
  then have "exp (ln (sqrt 2) * 2) = exp (ln (sqrt 2)) * exp (ln (sqrt (2::real)))"
    by (simp only: exp_add)
  also have "\<dots> = 2"
    by simp
  finally show ?thesis .
qed

lemma sqrt_pi_half: "sqrt (pi * pi / 4) = pi / 2"
proof -
  have "sqrt (pi * pi / 4) = sqrt ((pi / 2)\<^sup>2)"
    by (simp add: power2_eq_square)
  also have "\<dots> = pi / 2"
    by simp
  finally show ?thesis .
qed

lemma sqrt_pi_quarter: "sqrt (pi * pi / 16) = pi / 4"
proof -
  have "sqrt (pi * pi / 16) = sqrt ((pi / 4)\<^sup>2)"
    by (simp add: power2_eq_square)
  also have "\<dots> = pi / 4"
    by simp
  finally show ?thesis .
qed

lemma Inverse_Identity:
  "Quaternion_Inverse \<lparr>QX = 0, QY = 0, QZ = 0, QW = 1\<rparr> = \<lparr>QX = 0, QY = 0, QZ = 0, QW = 1\<rparr>"
  by (simp add: Quaternion_Inverse_def Quaternion_Conjugate_def Quaternion_div_assign_def
      Quaternion_LengthSquared_def Let_def)

lemma mul_Identity_right:
  "Quaternion_mul q \<lparr>QX = 0, QY = 0, QZ = 0, QW = 1\<rparr> = q"
  by (simp add: Quaternion_mul_def Quaternion_mul_assign_def)

lemma QLn_near:
  "QLn \<lparr>QX = 1, QY = 0, QZ = 0, QW = 1\<rparr>
     = \<lparr>QX = pi / 4, QY = 0, QZ = 0, QW = ln (sqrt 2)\<rparr>"
  by (simp add: QLn_def Quaternion_Length_def Quaternion_LengthSquared_def Let_def
      Quaternion_of_Vector3_def Vector3_scale_def arccos_one_over_sqrt_2)

lemma QExp_near:
  "QExp \<lparr>QX = pi / 2, QY = 0, QZ = 0, QW = ln (sqrt 2) * 2\<rparr>
     = \<lparr>QX = 2, QY = 0, QZ = 0, QW = 0\<rparr>"
  by (simp add: QExp_def Vector3_Length_def Vector3_LengthSquared_def Let_def
      Quaternion_of_Vector3_def Vector3_scale_def Vector3_div_def Quaternion_scale_def
      Quaternion_scale_assign_def exp_ln_sqrt2 sqrt_pi_half)

lemma QPow_near:
  "QPow \<lparr>QX = 1, QY = 0, QZ = 0, QW = 1\<rparr> 2 = \<lparr>QX = 2, QY = 0, QZ = 0, QW = 0\<rparr>"
  by (simp add: QPow_def QLn_near Quaternion_scale_def Quaternion_scale_assign_def QExp_near)

lemma QLn_far:
  "QLn \<lparr>QX = 1, QY = 0, QZ = 0, QW = 0\<rparr> = \<lparr>QX = pi / 2, QY = 0, QZ = 0, QW = 0\<rparr>"
  by (simp add: QLn_def Quaternion_Length_def Quaternion_LengthSquared_def Let_def
      Quaternion_of_Vector3_def Vector3_scale_def)

lemma QExp_far:
  "QExp \<lparr>QX = pi / 4, QY = 0, QZ = 0, QW = 0\<rparr>
     = \<lparr>QX = sqrt 2 / 2, QY = 0, QZ = 0, QW = sqrt 2 / 2\<rparr>"
  by (simp add: QExp_def Vector3_Length_def Vector3_LengthSquared_def Let_def
      Quaternion_of_Vector3_def Vector3_scale_def Vector3_div_def Quaternion_scale_def
      Quaternion_scale_assign_def sqrt_pi_quarter sin_45 cos_45)

lemma QPow_far:
  "QPow \<lparr>QX = 1, QY = 0, QZ = 0, QW = 0\<rparr> (1 / 2)
     = \<lparr>QX = sqrt 2 / 2, QY = 0, QZ = 0, QW = sqrt 2 / 2\<rparr>"
  by (simp add: QPow_def QLn_far Quaternion_scale_def Quaternion_scale_assign_def QExp_far)

subsection \<open>Rounding\<close>

lemma round_even_of_int [simp]: "round_even (of_int k) = k"
  by (simp add: round_even_def)


lemma round_mag_0 [simp]: "round_mag 0 = 0"
  by (simp add: round_mag_def)


lemma ulp_exp_normal:
  assumes "2 powr of_int e \<le> m" and "m < 2 powr of_int (e + 1)" and "- 126 \<le> e"
  shows "ulp_exp m = e - 23"
proof -
  have "0 < m"
    using assms(1) less_le_trans[of 0 "2 powr of_int e" m] by simp
  then have "\<lfloor>log 2 m\<rfloor> = e"
    using assms(1,2) by (simp add: floor_log_eq_powr_iff)
  with assms(3) show ?thesis by (simp add: ulp_exp_def)
qed


lemma round_mag_normal:
  assumes "2 powr of_int e \<le> m" and "m < 2 powr of_int (e + 1)" and "- 126 \<le> e"
  shows "round_mag m = of_int (round_even (m / 2 powr of_int (e - 23))) * 2 powr of_int (e - 23)"
proof -
  have "0 < m"
    using assms(1) less_le_trans[of 0 "2 powr of_int e" m] by simp
  then show ?thesis
    by (simp add: round_mag_def ulp_exp_normal[OF assms])
qed


lemma round_mag_pow2:
  assumes "- 126 \<le> e"
  shows "round_mag (2 powr of_int e) = 2 powr of_int e"
proof -
  have q: "(2::real) powr of_int e / 2 powr of_int (e - 23) = of_int 8388608"
    by (simp add: powr_diff[symmetric])
  have "round_mag (2 powr of_int e)
      = of_int (round_even (2 powr of_int e / 2 powr of_int (e - 23))) * 2 powr of_int (e - 23)"
    by (rule round_mag_normal) (use assms in \<open>simp_all add: powr_add\<close>)
  also have "\<dots> = of_int 8388608 * 2 powr of_int (e - 23)"
    by (simp only: q round_even_of_int)
  also have "\<dots> = 2 powr of_int e"
    by (simp add: powr_diff)
  finally show ?thesis .
qed

lemma round_mag_int:
  assumes "m \<in> \<int>" and "0 \<le> m" and "m < 2 ^ 24"
  shows "round_mag m = m"
proof (cases "m = 0")
  case True
  then show ?thesis by simp
next
  case False
  with assms have pos: "0 < m" by simp
  from assms(1) obtain k :: int where k: "m = of_int k" by (auto elim: Ints_cases)
  with pos have "1 \<le> k" by simp
  then have m1: "1 \<le> m" using k by simp
  define e where "e = \<lfloor>log 2 m\<rfloor>"
  have e0: "0 \<le> e" using m1 by (simp add: e_def)
  have "log 2 m < 24"
    using assms(3) pos by (simp add: log_less_iff)
  then have e23: "e \<le> 23" by (simp add: e_def floor_less_iff)
  have ue: "ulp_exp m = e - 23" using e0 by (simp add: ulp_exp_def e_def)
  define n where "n = nat (23 - e)"
  have "real_of_int (e - 23) = - real n"
    using e23 by (simp add: n_def)
  then have u: "2 powr of_int (e - 23) = 1 / (2::real) ^ n"
    by (simp only: powr_minus powr_realpow) (simp add: powr_realpow inverse_eq_divide)
  have q: "m / 2 powr of_int (e - 23) = of_int (k * 2 ^ n)"
    unfolding u k by simp
  have "round_mag m = of_int (round_even (m / 2 powr of_int (e - 23))) * 2 powr of_int (e - 23)"
    using False by (simp add: round_mag_def ue)
  also have "\<dots> = of_int (k * 2 ^ n) * (1 / 2 ^ n)"
    by (simp only: q round_even_of_int) (simp only: u)
  also have "\<dots> = m" by (simp add: k)
  finally show ?thesis .
qed

lemma round_mag_normal_nat:
  fixes k :: nat
  assumes "2 ^ k \<le> m" and "m < 2 ^ Suc k" and "23 \<le> k"
  shows "round_mag m = of_int (round_even (m / 2 ^ (k - 23))) * 2 ^ (k - 23)"
proof -
  have p: "(2::real) powr of_int (int k) = 2 ^ k" "(2::real) powr of_int (int k + 1) = 2 ^ Suc k"
    by (simp_all add: powr_realpow powr_add)
  have "real_of_int (int k - 23) = real (k - 23)"
    using assms(3) by simp
  then have u: "(2::real) powr of_int (int k - 23) = 2 ^ (k - 23)"
    by (simp only: powr_realpow)
  have "round_mag m
      = of_int (round_even (m / 2 powr of_int (int k - 23))) * 2 powr of_int (int k - 23)"
    by (rule round_mag_normal) (use assms p in simp_all)
  then show ?thesis
    by (simp only: u)
qed

lemma pack_0 [simp]: "pack s 0 = Finite s 0"
  by (simp add: pack_def)

lemma pack_representable: "0 \<le> m \<Longrightarrow> representable m \<Longrightarrow> pack s m = Finite s m"
  by (simp add: pack_def representable_def)

lemma pack_int:
  assumes "m \<in> \<int>" and "0 \<le> m" and "m < 2 ^ 24"
  shows "pack s m = Finite s m"
  using round_mag_int[OF assms] assms(3) by (simp add: pack_def)

lemma representable_1: "representable 1"
  using round_mag_int[of 1] by (simp add: representable_def)

lemma representable_int:
  assumes "r \<in> \<int>" and "\<bar>r\<bar> < 2 ^ 24"
  shows "representable r"
proof -
  have "\<bar>r\<bar> \<in> \<int>" using assms(1) by simp
  from round_mag_int[OF this _ assms(2)] assms(2) show ?thesis
    by (simp add: representable_def)
qed

lemma lit_0: "lit 0 = Finite False 0"
  by (simp add: lit_def)

lemma lit_1: "lit 1 = Finite False 1"
  by (simp add: lit_def pack_representable representable_1)


subsection \<open>Operations that do not round\<close>

lemma fadd_zero_right:
  assumes "is_float32 a"
  shows "feq (fadd a (Finite s 0)) a"
proof -
  from assms obtain sa ma where a: "a = Finite sa ma" and m: "0 \<le> ma" and r: "representable ma"
    by (cases a) auto
  show ?thesis
  proof (cases "ma = 0")
    case True
    then show ?thesis by (simp add: a sval_def)
  next
    case False
    with m have "0 < ma" by simp
    with r show ?thesis
      by (cases sa) (simp_all add: a sval_def Let_def pack_representable)
  qed
qed

lemma fsub_exact:
  assumes "is_float32 a" and "is_float32 b" and "representable (valof b - valof a)"
  shows "is_float32 (fsub b a) \<and> valof (fsub b a) = valof b - valof a"
proof -
  from assms(1) obtain sa ma where a: "a = Finite sa ma" and ma: "0 \<le> ma"
    by (cases a) auto
  from assms(2) obtain sb mb where b: "b = Finite sb mb" and mb: "0 \<le> mb"
    by (cases b) auto
  let ?v = "sval sb mb + sval (\<not> sa) ma"
  have v: "?v = valof b - valof a" by (simp add: a b sval_def)
  show ?thesis
  proof (cases "?v = 0")
    case True
    then show ?thesis
      using v by (simp add: fsub_def a b Let_def representable_def sval_def)
  next
    case False
    have rep: "representable \<bar>?v\<bar>" using assms(3) v by (simp add: representable_def)
    have "pack (?v < 0) \<bar>?v\<bar> = Finite (?v < 0) \<bar>?v\<bar>"
      by (rule pack_representable) (use rep in simp_all)
    then have "fsub b a = Finite (?v < 0) \<bar>?v\<bar>"
      using False by (simp add: fsub_def a b Let_def)
    then show ?thesis
      using rep v by (auto simp: sval_def)
  qed
qed

lemma fmul_one_right:
  assumes "is_float32 d"
  shows "fmul d (Finite False 1) = d"
  using assms by (cases d) (auto simp: pack_representable)

lemma fadd_exact:
  assumes "is_float32 a" and "is_float32 d" and "representable (valof a + valof d)"
  shows "is_float32 (fadd a d) \<and> valof (fadd a d) = valof a + valof d"
proof -
  from assms(1) obtain sa ma where a: "a = Finite sa ma" and ma: "0 \<le> ma"
    by (cases a) auto
  from assms(2) obtain sd md where d: "d = Finite sd md" and md: "0 \<le> md"
    by (cases d) auto
  let ?v = "sval sa ma + sval sd md"
  have v: "?v = valof a + valof d" by (simp add: a d)
  show ?thesis
  proof (cases "?v = 0")
    case True
    then show ?thesis
      using v by (simp add: a d Let_def representable_def sval_def)
  next
    case False
    have rep: "representable \<bar>?v\<bar>" using assms(3) v by (simp add: representable_def)
    have "pack (?v < 0) \<bar>?v\<bar> = Finite (?v < 0) \<bar>?v\<bar>"
      by (rule pack_representable) (use rep in simp_all)
    then have "fadd a d = Finite (?v < 0) \<bar>?v\<bar>"
      using False by (simp add: a d Let_def)
    then show ?thesis
      using rep v by (auto simp: sval_def)
  qed
qed

lemma feq_value:
  assumes "is_Finite x" and "is_Finite y" and "valof x = valof y"
  shows "feq x y"
  using assms by (cases x; cases y) auto

lemma is_float32_Finite: "is_float32 x \<Longrightarrow> is_Finite x"
  by (cases x) auto

lemma is_float32_representable: "is_float32 x \<Longrightarrow> representable (valof x)"
  by (cases x) (auto simp: representable_def sval_def)

subsection \<open>Lerp at its end points\<close>

lemma Lerpf_0:
  assumes "is_float32 a" and "is_Finite (fsub b a)"
  shows "feq (MathHelper_Lerpf a b (lit 0)) a"
proof -
  from assms(2) obtain sd md where d: "fsub b a = Finite sd md"
    by (cases "fsub b a") auto
  have "fmul (fsub b a) (lit 0) = Finite sd 0"
    by (simp add: d lit_0)
  then show ?thesis
    using fadd_zero_right[OF assms(1)] by (simp add: MathHelper_Lerpf_def)
qed

lemma Lerpf_1:
  assumes "is_float32 a" and "is_float32 b" and "representable (valof b - valof a)"
  shows "feq (MathHelper_Lerpf a b (lit 1)) b"
proof -
  from fsub_exact[OF assms] have d: "is_float32 (fsub b a)"
    and dv: "valof (fsub b a) = valof b - valof a" by simp_all
  have m: "fmul (fsub b a) (lit 1) = fsub b a"
    by (simp add: lit_1 fmul_one_right[OF d])
  have "representable (valof a + valof (fsub b a))"
    using is_float32_representable[OF assms(2)] by (simp add: dv)
  from fadd_exact[OF assms(1) d this]
  have "is_float32 (fadd a (fsub b a))" and "valof (fadd a (fsub b a)) = valof b"
    by (simp_all add: dv)
  then show ?thesis
    using assms(2) by (simp add: MathHelper_Lerpf_def m feq_value is_float32_Finite)
qed

lemma Lerpf_start: "finite_difference a b \<Longrightarrow> feq (MathHelper_Lerpf a b (lit 0)) a"
  by (simp add: finite_difference_def Lerpf_0)

lemma Lerpf_end: "exact_difference a b \<Longrightarrow> feq (MathHelper_Lerpf a b (lit 1)) b"
  by (simp add: exact_difference_def Lerpf_1)

lemma Vector2f_Lerp_components:
  "x2 (Vector2f_Lerp v1 v2 t) = MathHelper_Lerpf (x2 v1) (x2 v2) t"
  "y2 (Vector2f_Lerp v1 v2 t) = MathHelper_Lerpf (y2 v1) (y2 v2) t"
  by (simp_all add: Vector2f_Lerp_def Vector2f_add_def Vector2f_scale_def Vector2f_sub_def
      MathHelper_Lerpf_def)

text \<open>
  \<open>1 - 100000000\<close> is \<open>- 99999999\<close>, between \<open>2 ^ 26\<close> and \<open>2 ^ 27\<close>, where the floats are the
  multiples of 8: it rounds to \<open>- 100000000\<close>. And \<open>2 ^ 127 + 2 ^ 127\<close> overflows.
\<close>

lemma round_mag_1e8: "round_mag 100000000 = 100000000"
  using round_mag_normal_nat[of 26 100000000] by (simp add: round_even_def)

lemma round_mag_99999999: "round_mag 99999999 = 100000000"
  using round_mag_normal_nat[of 26 99999999] by (simp add: round_even_def)

lemma Lerpf_1e8:
  "MathHelper_Lerpf (lit 100000000) (lit 1) (lit 1) = Finite False 0"
proof -
  have a: "lit 100000000 = Finite False 100000000"
    by (simp add: lit_def pack_def round_mag_1e8)
  have d: "fsub (lit 1) (lit 100000000) = Finite True 100000000"
    by (simp add: a lit_1 fsub_def sval_def pack_def round_mag_99999999)
  have m: "fmul (Finite True 100000000) (lit 1) = Finite True 100000000"
    by (simp add: lit_1 pack_def round_mag_1e8)
  show ?thesis
    by (simp add: MathHelper_Lerpf_def d m) (simp add: a sval_def)
qed

lemma pack_2_127:
  "pack s 170141183460469231731687303715884105728 = Finite s 170141183460469231731687303715884105728"
  using round_mag_pow2[of 127] by (simp add: pack_def)

lemma pack_2_128: "pack s 340282366920938463463374607431768211456 = Infinity s"
  using round_mag_pow2[of 128] by (simp add: pack_def)

lemma Lerpf_overflow:
  "MathHelper_Lerpf (lit (- 170141183460469231731687303715884105728)) (lit 170141183460469231731687303715884105728) (lit 0) = NaN"
  by (simp add: MathHelper_Lerpf_def lit_def fsub_def sval_def pack_2_127 pack_2_128)

subsection \<open>Integers in single precision\<close>

text \<open>
  Sums, differences and products of integers below \<open>2 ^ 24\<close> in magnitude are computed
  without rounding.
\<close>

lemma intf_mono: "intf A x \<Longrightarrow> A \<le> B \<Longrightarrow> intf B x"
  by (cases x) auto

lemma intf_abs: "intf A x \<Longrightarrow> \<bar>valof x\<bar> \<le> A \<and> valof x \<in> \<int>"
  by (cases x) (auto simp: sval_def)

lemma intf_fneg: "intf A x \<Longrightarrow> intf A (fneg x) \<and> valof (fneg x) = - valof x"
  by (cases x) (auto simp: sval_def)


lemma intf_fadd:
  assumes "intf A x" and "intf B y" and "A + B < 2 ^ 24"
  shows "intf (A + B) (fadd x y) \<and> valof (fadd x y) = valof x + valof y"
proof -
  from assms(1) obtain s1 m1 where x: "x = Finite s1 m1" and m1: "m1 \<in> \<int>" "0 \<le> m1" "m1 \<le> A"
    by (cases x) auto
  from assms(2) obtain s2 m2 where y: "y = Finite s2 m2" and m2: "m2 \<in> \<int>" "0 \<le> m2" "m2 \<le> B"
    by (cases y) auto
  let ?v = "sval s1 m1 + sval s2 m2"
  have vi: "?v \<in> \<int>" using m1 m2 by (auto simp: sval_def)
  have vb: "\<bar>?v\<bar> \<le> A + B" using m1 m2 by (auto simp: sval_def)
  show ?thesis
  proof (cases "?v = 0")
    case True
    then show ?thesis
      using m1 m2 by (simp add: x y Let_def sval_def)
  next
    case False
    have "pack (?v < 0) \<bar>?v\<bar> = Finite (?v < 0) \<bar>?v\<bar>"
      by (rule pack_int) (use vi vb assms(3) in auto)
    then have "fadd x y = Finite (?v < 0) \<bar>?v\<bar>"
      using False by (simp add: x y Let_def)
    then show ?thesis
      using vi vb by (auto simp: x y sval_def)
  qed
qed

lemma intf_fsub:
  assumes "intf A x" and "intf B y" and "A + B < 2 ^ 24"
  shows "intf (A + B) (fsub x y) \<and> valof (fsub x y) = valof x - valof y"
  using intf_fadd[OF assms(1) conjunct1[OF intf_fneg[OF assms(2)]] assms(3)] intf_fneg[OF assms(2)]
  by (simp add: fsub_def)

lemma is_float32_intf:
  assumes "intf 1024 a"
  shows "is_float32 a \<and> valof a \<in> \<int> \<and> \<bar>valof a\<bar> \<le> 1024"
proof (cases a)
  case (Finite s m)
  then have m: "m \<in> \<int>" "0 \<le> m" "m \<le> 1024"
    using assms by simp_all
  then have "\<bar>m\<bar> < 2 ^ 24"
    by simp
  then have "representable m"
    using m(1) by (rule representable_int[rotated])
  then show ?thesis
    using m by (simp add: Finite sval_def)
next
  case (Infinity s)
  then show ?thesis using assms by simp
next
  case NaN
  then show ?thesis using assms by simp
qed

lemma finite_difference_int:
  assumes "intf 1024 a" and "intf 1024 b"
  shows "finite_difference a b"
proof -
  have "intf (1024 + 1024) (fsub b a)"
    using intf_fsub[OF assms(2) assms(1)] by simp
  then have "is_Finite (fsub b a)"
    by (cases "fsub b a") simp_all
  then show ?thesis
    using is_float32_intf[OF assms(1)] by (simp add: finite_difference_def)
qed

lemma exact_difference_int:
  assumes "intf 1024 a" and "intf 1024 b"
  shows "exact_difference a b"
proof -
  note a = is_float32_intf[OF assms(1)] and b = is_float32_intf[OF assms(2)]
  have "valof b - valof a \<in> \<int>"
    using a b by simp
  moreover have "\<bar>valof b - valof a\<bar> \<le> \<bar>valof b\<bar> + \<bar>valof a\<bar>"
    by (rule abs_triangle_ineq4)
  then have "\<bar>valof b - valof a\<bar> < 2 ^ 24"
    using a b by simp
  ultimately have "representable (valof b - valof a)"
    by (rule representable_int)
  then show ?thesis
    using a b by (simp add: exact_difference_def)
qed







subsection \<open>Determinant, Invert and the product on integer matrices\<close>

















subsection \<open>Lengths of rows\<close>















section \<open>Properties\<close>

subsection \<open>Slerp\<close>

text \<open>
  C1: \<^verbatim>\<open>Quaternion::Slerp\<close> is to return \<^verbatim>\<open>Lerp(a, b, t)\<close> when \<^verbatim>\<open>Dot(a, b) >= 0.999\<close> and the
  form \<open>exp (ln (to * inverse from) * t) * from\<close> below that threshold. The source tests
  \<^verbatim>\<open>d < 0.999f\<close> where its comment announces the near case, so the two branches are
  exchanged. At \<open>from = (0, 0, 0, 1)\<close>, \<open>to = (1, 0, 0, 1)\<close>, \<open>t = 2\<close> the dot product is 1
  and \<^verbatim>\<open>Slerp\<close> returns \<open>(2, 0, 0, 0)\<close>, the exponential form, while \<^verbatim>\<open>Lerp\<close> returns
  \<open>(2, 0, 0, 1)\<close>. At \<open>from = (0, 0, 0, 1)\<close>, \<open>to = (1, 0, 0, 0)\<close>, \<open>t = 1 / 2\<close> the dot
  product is 0 and \<^verbatim>\<open>Slerp\<close> returns \<open>(1 / 2, 0, 0, 1 / 2)\<close>, which is \<^verbatim>\<open>Lerp\<close>, while the
  exponential form is \<open>(sqrt 2 / 2, 0, 0, sqrt 2 / 2)\<close>.
\<close>

theorem C1_Slerp_branches_exchanged:
  "Quaternion_Dot \<lparr>QX = 0, QY = 0, QZ = 0, QW = 1\<rparr> \<lparr>QX = 1, QY = 0, QZ = 0, QW = 1\<rparr> = 1
   \<and> Quaternion_Slerp \<lparr>QX = 0, QY = 0, QZ = 0, QW = 1\<rparr> \<lparr>QX = 1, QY = 0, QZ = 0, QW = 1\<rparr> 2
       = \<lparr>QX = 2, QY = 0, QZ = 0, QW = 0\<rparr>
   \<and> Quaternion_Lerp \<lparr>QX = 0, QY = 0, QZ = 0, QW = 1\<rparr> \<lparr>QX = 1, QY = 0, QZ = 0, QW = 1\<rparr> 2
       = \<lparr>QX = 2, QY = 0, QZ = 0, QW = 1\<rparr>
   \<and> Quaternion_Dot \<lparr>QX = 0, QY = 0, QZ = 0, QW = 1\<rparr> \<lparr>QX = 1, QY = 0, QZ = 0, QW = 0\<rparr> = 0
   \<and> Quaternion_Slerp \<lparr>QX = 0, QY = 0, QZ = 0, QW = 1\<rparr> \<lparr>QX = 1, QY = 0, QZ = 0, QW = 0\<rparr> (1 / 2)
       = \<lparr>QX = 1 / 2, QY = 0, QZ = 0, QW = 1 / 2\<rparr>
   \<and> Quaternion_mul
         (QPow (Quaternion_mul \<lparr>QX = 1, QY = 0, QZ = 0, QW = 0\<rparr>
                  (Quaternion_Inverse \<lparr>QX = 0, QY = 0, QZ = 0, QW = 1\<rparr>)) (1 / 2))
         \<lparr>QX = 0, QY = 0, QZ = 0, QW = 1\<rparr>
       = \<lparr>QX = sqrt 2 / 2, QY = 0, QZ = 0, QW = sqrt 2 / 2\<rparr>"
proof -
  let ?from = "\<lparr>QX = 0, QY = 0, QZ = 0, QW = 1::real\<rparr>"
  let ?near = "\<lparr>QX = 1, QY = 0, QZ = 0, QW = 1::real\<rparr>"
  let ?far = "\<lparr>QX = 1, QY = 0, QZ = 0, QW = 0::real\<rparr>"
  have d1: "Quaternion_Dot ?from ?near = 1"
    by (simp add: Quaternion_Dot_def)
  have "Quaternion_Slerp ?from ?near 2
          = Quaternion_mul (QPow (Quaternion_mul ?near (Quaternion_Inverse ?from)) 2) ?from"
    by (simp add: Quaternion_Slerp_def d1)
  also have "\<dots> = \<lparr>QX = 2, QY = 0, QZ = 0, QW = 0\<rparr>"
    by (simp only: Inverse_Identity mul_Identity_right QPow_near)
  finally have s1: "Quaternion_Slerp ?from ?near 2 = \<lparr>QX = 2, QY = 0, QZ = 0, QW = 0\<rparr>" .
  have l1: "Quaternion_Lerp ?from ?near 2 = \<lparr>QX = 2, QY = 0, QZ = 0, QW = 1\<rparr>"
    by (simp add: Quaternion_Lerp_def MathHelper_Lerp_def)
  have d2: "Quaternion_Dot ?from ?far = 0"
    by (simp add: Quaternion_Dot_def)
  have s2: "Quaternion_Slerp ?from ?far (1 / 2) = \<lparr>QX = 1 / 2, QY = 0, QZ = 0, QW = 1 / 2\<rparr>"
    by (simp add: Quaternion_Slerp_def d2 Quaternion_Lerp_def MathHelper_Lerp_def)
  have e2: "Quaternion_mul (QPow (Quaternion_mul ?far (Quaternion_Inverse ?from)) (1 / 2)) ?from
          = \<lparr>QX = sqrt 2 / 2, QY = 0, QZ = 0, QW = sqrt 2 / 2\<rparr>"
    by (simp only: Inverse_Identity mul_Identity_right QPow_far)
  from d1 s1 l1 d2 s2 e2 show ?thesis
    by (simp only: simp_thms)
qed

subsection \<open>Inversion\<close>




subsection \<open>The field of view\<close>

text \<open>
  C3, as the source has it: \<^verbatim>\<open>Matrix::CreatePerspectiveFieldOfView\<close> throws
  \<^verbatim>\<open>std::out_of_range\<close> exactly when the field of view is below 0 or above \<^verbatim>\<open>MathHelper::Pi\<close>
  (outside the closed interval), when \<^verbatim>\<open>zNear > zFar\<close>, or when one of the two depths is
  negative.
\<close>

theorem C3_CreatePerspectiveFieldOfView_throws_iff:
  "isl (Matrix_CreatePerspectiveFieldOfView fov aR zN zF)
     \<longleftrightarrow> (fov < 0 \<or> Pi < fov \<or> zF < zN \<or> zN < 0 \<or> zF < 0)"
  by (auto simp: Matrix_CreatePerspectiveFieldOfView_def Let_def)

text \<open>
  A field of view of 4 is above \<^verbatim>\<open>Pi\<close> and throws; a field of view of 1 with depths 1 and
  2 does not.
\<close>

theorem C3_CreatePerspectiveFieldOfView_witness:
  "isl (Matrix_CreatePerspectiveFieldOfView 4 1 1 2)
   \<and> \<not> isl (Matrix_CreatePerspectiveFieldOfView 1 1 1 2)"
  using C3_CreatePerspectiveFieldOfView_throws_iff[of 4 1 1 2]
    C3_CreatePerspectiveFieldOfView_throws_iff[of 1 1 1 2]
  by (simp add: Pi_def)

text \<open>
  The claim as stated has the call with a field of view of \<open>\<pi>\<close> throw. With
  \<^verbatim>\<open>fieldOfView = MathHelper::Pi\<close>, aspect ratio 1 and depths 1 and 2 the source's test
  \<^verbatim>\<open>fov <= MathHelper::Pi\<close> holds, and the call returns a matrix.
\<close>

theorem C3_fov_Pi_does_not_throw:
  "\<not> isl (Matrix_CreatePerspectiveFieldOfView Pi 1 1 2)"
  by (simp add: Matrix_CreatePerspectiveFieldOfView_def Let_def Pi_def)

subsection \<open>Subtraction\<close>

text \<open>
  C4: \<^verbatim>\<open>a - b\<close> and \<^verbatim>\<open>a -= b\<close> are the component-wise difference for Vector2, Vector3 and
  Vector4. \<^verbatim>\<open>Vector2::operator-=\<close> subtracts \<^verbatim>\<open>rhs.Y\<close> from \<^verbatim>\<open>X\<close> and leaves \<^verbatim>\<open>Y\<close> as it
  was: \<open>(5, 5) -= (1, 2)\<close> is \<open>(2, 5)\<close> and not \<open>(4, 3)\<close>. \<^verbatim>\<open>Vector4::operator-=\<close> divides,
  and the binary \<^verbatim>\<open>operator-\<close> of Vector4 calls it: \<open>(6, 6, 6, 6) - (1, 2, 3, 6)\<close> is
  \<open>(6, 3, 2, 1)\<close> and not \<open>(5, 4, 3, 0)\<close>. (The two operators of Vector3 and the binary
  operator of Vector2 are component-wise: lemmas \<open>Vector3_sub_assign_componentwise\<close>,
  \<open>Vector3_sub_componentwise\<close>, \<open>Vector2_sub_componentwise\<close>.)
\<close>

theorem C4_subtraction_not_componentwise:
  "Vector2_sub_assign \<lparr>X2 = 5, Y2 = 5\<rparr> \<lparr>X2 = 1, Y2 = 2\<rparr> = \<lparr>X2 = 2, Y2 = 5\<rparr>
   \<and> Vector4_sub_assign \<lparr>X4 = 6, Y4 = 6, Z4 = 6, W4 = 6\<rparr> \<lparr>X4 = 1, Y4 = 2, Z4 = 3, W4 = 6\<rparr>
       = \<lparr>X4 = 6, Y4 = 3, Z4 = 2, W4 = 1\<rparr>
   \<and> Vector4_sub \<lparr>X4 = 6, Y4 = 6, Z4 = 6, W4 = 6\<rparr> \<lparr>X4 = 1, Y4 = 2, Z4 = 3, W4 = 6\<rparr>
       = \<lparr>X4 = 6, Y4 = 3, Z4 = 2, W4 = 1\<rparr>"
  by (simp add: Vector2_sub_assign_def Vector4_sub_assign_def Vector4_sub_def)

subsection \<open>Clamp\<close>

text \<open>
  C5: \<^verbatim>\<open>Vector4::Clamp\<close> clamps component by component. The source passes the \<^verbatim>\<open>X\<close>
  components to all four calls of the scalar clamp, so at \<open>val = (1, 2, 3, 4)\<close>,
  \<open>min = (0, 0, 0, 0)\<close>, \<open>max = (10, 10, 10, 10)\<close> the result is \<open>(1, 1, 1, 1)\<close> and not
  the component-wise \<open>(1, 2, 3, 4)\<close>.
\<close>

theorem C5_Vector4_Clamp_uses_X_only:
  "Vector4_Clamp \<lparr>X4 = 1, Y4 = 2, Z4 = 3, W4 = 4\<rparr>
       \<lparr>X4 = 0, Y4 = 0, Z4 = 0, W4 = 0\<rparr> \<lparr>X4 = 10, Y4 = 10, Z4 = 10, W4 = 10\<rparr>
     = \<lparr>X4 = 1, Y4 = 1, Z4 = 1, W4 = 1\<rparr>
   \<and> \<lparr>X4 = MathHelper_Clamp 1 0 10, Y4 = MathHelper_Clamp 2 0 10,
       Z4 = MathHelper_Clamp 3 0 10, W4 = MathHelper_Clamp 4 0 10\<rparr>
     = \<lparr>X4 = 1, Y4 = 2, Z4 = 3, W4 = 4\<rparr>"
  by (simp add: Vector4_Clamp_def MathHelper_Clamp_def MathHelper_Max_def MathHelper_Min_def)

subsection \<open>Transform\<close>

text \<open>
  C6: \<^verbatim>\<open>Vector3::Transform(v, m)\<close> is the row vector \<open>[v.X, v.Y, v.Z, 1]\<close> times \<open>m\<close>, cut to
  three components, so its third component ends in \<^verbatim>\<open>M43\<close>. The source adds \<^verbatim>\<open>M41\<close>
  there: the origin, transformed by the translation by \<open>(1, 2, 3)\<close>, comes out as
  \<open>(1, 2, 1)\<close> and not \<open>(1, 2, 3)\<close>.
\<close>

theorem C6_Vector3_Transform_Z_adds_M41:
  "Vector3_Transform \<lparr>X3 = 0, Y3 = 0, Z3 = 0\<rparr> (Matrix_CreateTranslation 1 2 3)
     = \<lparr>X3 = 1, Y3 = 2, Z3 = 1\<rparr>
   \<and> Z3 (Vector3_Transform v m) = X3 v * M13 m + Y3 v * M23 m + Z3 v * M33 m + M41 m"
  by (simp add: Vector3_Transform_def Matrix_CreateTranslation_def)

subsection \<open>WrapAngle\<close>

text \<open>
  C7, as the source has it: for every input \<^verbatim>\<open>MathHelper::WrapAngle\<close> returns a value that
  differs from the input by a whole multiple of \<^verbatim>\<open>TwoPi\<close> and lies in the interval from
  \<open>- TwoPi\<close> (excluded) to \<open>Pi\<close> (included); for every input that is not negative, which
  covers the range from 0 to \<open>2\<pi>\<close> of the function's documentation, the value lies in the
  interval from \<open>- Pi\<close> (excluded) to \<open>Pi\<close> (included). \<open>Pi\<close> and \<open>TwoPi\<close> are the
  constants of \<^verbatim>\<open>MathHelper\<close>.
\<close>

theorem C7_WrapAngle_range:
  "(\<exists>k::int. MathHelper_WrapAngle val = val + of_int k * TwoPi)
   \<and> - TwoPi < MathHelper_WrapAngle val \<and> MathHelper_WrapAngle val \<le> Pi
   \<and> (0 \<le> val \<longrightarrow> - Pi < MathHelper_WrapAngle val)"
  using WrapAngle_congruent[of val] WrapAngle_range[of val] WrapAngle_range_nonneg[of val]
  by blast

text \<open>The input 4 lies between \<open>Pi\<close> and \<open>TwoPi\<close>; its wrapped value is \<open>4 - TwoPi\<close>.\<close>

theorem C7_WrapAngle_witness:
  "(0::real) \<le> 4
   \<and> MathHelper_WrapAngle 4 = 4 - TwoPi
   \<and> - Pi < MathHelper_WrapAngle 4 \<and> MathHelper_WrapAngle 4 \<le> Pi"
proof -
  have v: "MathHelper_WrapAngle 4 = 4 - TwoPi"
    by (simp add: MathHelper_WrapAngle_def fmodf_def trunc_def TwoPi_def Pi_def Let_def)
  have n: "(0::real) \<le> 4"
    by simp
  from C7_WrapAngle_range[of 4] n have "- Pi < MathHelper_WrapAngle 4 \<and> MathHelper_WrapAngle 4 \<le> Pi"
    by blast
  with v n show ?thesis
    by (simp only: simp_thms)
qed

text \<open>
  The claim as stated covers every input. The input \<open>- 4\<close> lies below \<open>- Pi\<close>;
  \<^verbatim>\<open>fmodf\<close> returns it as it is, the test \<^verbatim>\<open>val > Pi\<close> fails, and the result \<open>- 4\<close> is
  outside the interval.
\<close>

theorem C7_WrapAngle_negative_input:
  "\<not> (- Pi < MathHelper_WrapAngle (- 4) \<and> MathHelper_WrapAngle (- 4) \<le> Pi)"
  by (simp add: MathHelper_WrapAngle_def fmodf_def trunc_def TwoPi_def Pi_def Let_def)

subsection \<open>Lerp at its end points\<close>

text \<open>
  C8, in single precision: \<^verbatim>\<open>Lerp(a, b, 0) == a\<close> when \<open>a\<close> is a finite float and the
  computed difference \<open>b - a\<close> is finite (it does not overflow), and \<^verbatim>\<open>Lerp(a, b, 1) == b\<close>
  when \<open>a\<close> and \<open>b\<close> are finite floats whose difference is a float (it is computed without
  rounding): for the scalar helper, for Vector2 and Vector4 under their \<^verbatim>\<open>operator==\<close>,
  component by component for Quaternion, and for Matrix under its \<^verbatim>\<open>operator==\<close>, the
  conditions holding for each pair of components. \<^verbatim>\<open>==\<close> is the comparison of floats.
\<close>

theorem C8_Lerp_end_points_single_precision:
  "(finite_difference x y \<longrightarrow> feq (MathHelper_Lerpf x y (lit 0)) x)
   \<and> (exact_difference x y \<longrightarrow> feq (MathHelper_Lerpf x y (lit 1)) y)
   \<and> (Vector2f_rel finite_difference a2 b2 \<longrightarrow> Vector2f_eq (Vector2f_Lerp a2 b2 (lit 0)) a2)
   \<and> (Vector2f_rel exact_difference a2 b2 \<longrightarrow> Vector2f_eq (Vector2f_Lerp a2 b2 (lit 1)) b2)
   \<and> (Vector4f_rel finite_difference a4 b4 \<longrightarrow> Vector4f_eq (Vector4f_Lerp a4 b4 (lit 0)) a4)
   \<and> (Vector4f_rel exact_difference a4 b4 \<longrightarrow> Vector4f_eq (Vector4f_Lerp a4 b4 (lit 1)) b4)
   \<and> (Quaternionf_rel finite_difference p q
        \<longrightarrow> Quaternionf_rel feq (Quaternionf_Lerp p q (lit 0)) p)
   \<and> (Quaternionf_rel exact_difference p q
        \<longrightarrow> Quaternionf_rel feq (Quaternionf_Lerp p q (lit 1)) q)
   \<and> (Matrixf_rel finite_difference m n \<longrightarrow> Matrixf_eq (Matrixf_Lerp m n (lit 0)) m)
   \<and> (Matrixf_rel exact_difference m n \<longrightarrow> Matrixf_eq (Matrixf_Lerp m n (lit 1)) n)"
  by (simp add: Lerpf_start Lerpf_end Vector2f_rel_def Vector2f_eq_def Vector2f_Lerp_components
      Vector4f_rel_def Vector4f_eq_def Vector4f_Lerp_def Quaternionf_rel_def Quaternionf_Lerp_def
      Matrixf_rel_def Matrixf_eq_def Matrixf_Lerp_def)

text \<open>
  From 1 to 3; from \<open>(1, - 2)\<close> to \<open>(3, 5)\<close>; from \<open>(1, - 2, 0, 4)\<close> to \<open>(3, 5, 7, - 9)\<close>;
  from the quaternion \<open>(0, 0, 0, 1)\<close> to \<open>(1, 0, 0, 0)\<close>; from the translation by
  \<open>(5, 6, 7)\<close> to a matrix of small integers.
\<close>

theorem C8_Lerp_end_points_witness:
  "finite_difference (Finite False 1) (Finite False 3)
   \<and> feq (MathHelper_Lerpf (Finite False 1) (Finite False 3) (lit 0)) (Finite False 1)
   \<and> exact_difference (Finite False 1) (Finite False 3)
   \<and> feq (MathHelper_Lerpf (Finite False 1) (Finite False 3) (lit 1)) (Finite False 3)
   \<and> Vector2f_rel finite_difference
       \<lparr>x2 = Finite False 1, y2 = Finite True 2\<rparr>
       \<lparr>x2 = Finite False 3, y2 = Finite False 5\<rparr>
   \<and> Vector2f_eq (Vector2f_Lerp
       \<lparr>x2 = Finite False 1, y2 = Finite True 2\<rparr>
       \<lparr>x2 = Finite False 3, y2 = Finite False 5\<rparr> (lit 0))
       \<lparr>x2 = Finite False 1, y2 = Finite True 2\<rparr>
   \<and> Vector2f_rel exact_difference
       \<lparr>x2 = Finite False 1, y2 = Finite True 2\<rparr>
       \<lparr>x2 = Finite False 3, y2 = Finite False 5\<rparr>
   \<and> Vector2f_eq (Vector2f_Lerp
       \<lparr>x2 = Finite False 1, y2 = Finite True 2\<rparr>
       \<lparr>x2 = Finite False 3, y2 = Finite False 5\<rparr> (lit 1))
       \<lparr>x2 = Finite False 3, y2 = Finite False 5\<rparr>
   \<and> Vector4f_rel finite_difference
       \<lparr>x4 = Finite False 1, y4 = Finite True 2, z4 = Finite False 0, w4 = Finite False 4\<rparr>
       \<lparr>x4 = Finite False 3, y4 = Finite False 5, z4 = Finite False 7, w4 = Finite True 9\<rparr>
   \<and> Vector4f_eq (Vector4f_Lerp
       \<lparr>x4 = Finite False 1, y4 = Finite True 2, z4 = Finite False 0, w4 = Finite False 4\<rparr>
       \<lparr>x4 = Finite False 3, y4 = Finite False 5, z4 = Finite False 7, w4 = Finite True 9\<rparr> (lit 0))
       \<lparr>x4 = Finite False 1, y4 = Finite True 2, z4 = Finite False 0, w4 = Finite False 4\<rparr>
   \<and> Vector4f_rel exact_difference
       \<lparr>x4 = Finite False 1, y4 = Finite True 2, z4 = Finite False 0, w4 = Finite False 4\<rparr>
       \<lparr>x4 = Finite False 3, y4 = Finite False 5, z4 = Finite False 7, w4 = Finite True 9\<rparr>
   \<and> Vector4f_eq (Vector4f_Lerp
       \<lparr>x4 = Finite False 1, y4 = Finite True 2, z4 = Finite False 0, w4 = Finite False 4\<rparr>
       \<lparr>x4 = Finite False 3, y4 = Finite False 5, z4 = Finite False 7, w4 = Finite True 9\<rparr> (lit 1))
       \<lparr>x4 = Finite False 3, y4 = Finite False 5, z4 = Finite False 7, w4 = Finite True 9\<rparr>
   \<and> Quaternionf_rel finite_difference
       \<lparr>qx = Finite False 0, qy = Finite False 0, qz = Finite False 0, qw = Finite False 1\<rparr>
       \<lparr>qx = Finite False 1, qy = Finite False 0, qz = Finite False 0, qw = Finite False 0\<rparr>
   \<and> Quaternionf_rel feq (Quaternionf_Lerp
       \<lparr>qx = Finite False 0, qy = Finite False 0, qz = Finite False 0, qw = Finite False 1\<rparr>
       \<lparr>qx = Finite False 1, qy = Finite False 0, qz = Finite False 0, qw = Finite False 0\<rparr> (lit 0))
       \<lparr>qx = Finite False 0, qy = Finite False 0, qz = Finite False 0, qw = Finite False 1\<rparr>
   \<and> Quaternionf_rel exact_difference
       \<lparr>qx = Finite False 0, qy = Finite False 0, qz = Finite False 0, qw = Finite False 1\<rparr>
       \<lparr>qx = Finite False 1, qy = Finite False 0, qz = Finite False 0, qw = Finite False 0\<rparr>
   \<and> Quaternionf_rel feq (Quaternionf_Lerp
       \<lparr>qx = Finite False 0, qy = Finite False 0, qz = Finite False 0, qw = Finite False 1\<rparr>
       \<lparr>qx = Finite False 1, qy = Finite False 0, qz = Finite False 0, qw = Finite False 0\<rparr> (lit 1))
       \<lparr>qx = Finite False 1, qy = Finite False 0, qz = Finite False 0, qw = Finite False 0\<rparr>
   \<and> Matrixf_rel finite_difference
       \<lparr>m11 = Finite False 1, m12 = Finite False 0, m13 = Finite False 0, m14 = Finite False 0,
          m21 = Finite False 0, m22 = Finite False 1, m23 = Finite False 0, m24 = Finite False 0,
          m31 = Finite False 0, m32 = Finite False 0, m33 = Finite False 1, m34 = Finite False 0,
          m41 = Finite False 5, m42 = Finite False 6, m43 = Finite False 7, m44 = Finite False 1\<rparr>
       \<lparr>m11 = Finite False 2, m12 = Finite True 1, m13 = Finite False 0, m14 = Finite False 0,
          m21 = Finite False 1, m22 = Finite False 2, m23 = Finite False 0, m24 = Finite False 0,
          m31 = Finite False 0, m32 = Finite False 0, m33 = Finite False 3, m34 = Finite False 0,
          m41 = Finite True 5, m42 = Finite False 8, m43 = Finite False 9, m44 = Finite False 1\<rparr>
   \<and> Matrixf_eq (Matrixf_Lerp
       \<lparr>m11 = Finite False 1, m12 = Finite False 0, m13 = Finite False 0, m14 = Finite False 0,
          m21 = Finite False 0, m22 = Finite False 1, m23 = Finite False 0, m24 = Finite False 0,
          m31 = Finite False 0, m32 = Finite False 0, m33 = Finite False 1, m34 = Finite False 0,
          m41 = Finite False 5, m42 = Finite False 6, m43 = Finite False 7, m44 = Finite False 1\<rparr>
       \<lparr>m11 = Finite False 2, m12 = Finite True 1, m13 = Finite False 0, m14 = Finite False 0,
          m21 = Finite False 1, m22 = Finite False 2, m23 = Finite False 0, m24 = Finite False 0,
          m31 = Finite False 0, m32 = Finite False 0, m33 = Finite False 3, m34 = Finite False 0,
          m41 = Finite True 5, m42 = Finite False 8, m43 = Finite False 9, m44 = Finite False 1\<rparr> (lit 0))
       \<lparr>m11 = Finite False 1, m12 = Finite False 0, m13 = Finite False 0, m14 = Finite False 0,
          m21 = Finite False 0, m22 = Finite False 1, m23 = Finite False 0, m24 = Finite False 0,
          m31 = Finite False 0, m32 = Finite False 0, m33 = Finite False 1, m34 = Finite False 0,
          m41 = Finite False 5, m42 = Finite False 6, m43 = Finite False 7, m44 = Finite False 1\<rparr>
   \<and> Matrixf_rel exact_difference
       \<lparr>m11 = Finite False 1, m12 = Finite False 0, m13 = Finite False 0, m14 = Finite False 0,
          m21 = Finite False 0, m22 = Finite False 1, m23 = Finite False 0, m24 = Finite False 0,
          m31 = Finite False 0, m32 = Finite False 0, m33 = Finite False 1, m34 = Finite False 0,
          m41 = Finite False 5, m42 = Finite False 6, m43 = Finite False 7, m44 = Finite False 1\<rparr>
       \<lparr>m11 = Finite False 2, m12 = Finite True 1, m13 = Finite False 0, m14 = Finite False 0,
          m21 = Finite False 1, m22 = Finite False 2, m23 = Finite False 0, m24 = Finite False 0,
          m31 = Finite False 0, m32 = Finite False 0, m33 = Finite False 3, m34 = Finite False 0,
          m41 = Finite True 5, m42 = Finite False 8, m43 = Finite False 9, m44 = Finite False 1\<rparr>
   \<and> Matrixf_eq (Matrixf_Lerp
       \<lparr>m11 = Finite False 1, m12 = Finite False 0, m13 = Finite False 0, m14 = Finite False 0,
          m21 = Finite False 0, m22 = Finite False 1, m23 = Finite False 0, m24 = Finite False 0,
          m31 = Finite False 0, m32 = Finite False 0, m33 = Finite False 1, m34 = Finite False 0,
          m41 = Finite False 5, m42 = Finite False 6, m43 = Finite False 7, m44 = Finite False 1\<rparr>
       \<lparr>m11 = Finite False 2, m12 = Finite True 1, m13 = Finite False 0, m14 = Finite False 0,
          m21 = Finite False 1, m22 = Finite False 2, m23 = Finite False 0, m24 = Finite False 0,
          m31 = Finite False 0, m32 = Finite False 0, m33 = Finite False 3, m34 = Finite False 0,
          m41 = Finite True 5, m42 = Finite False 8, m43 = Finite False 9, m44 = Finite False 1\<rparr> (lit 1))
       \<lparr>m11 = Finite False 2, m12 = Finite True 1, m13 = Finite False 0, m14 = Finite False 0,
          m21 = Finite False 1, m22 = Finite False 2, m23 = Finite False 0, m24 = Finite False 0,
          m31 = Finite False 0, m32 = Finite False 0, m33 = Finite False 3, m34 = Finite False 0,
          m41 = Finite True 5, m42 = Finite False 8, m43 = Finite False 9, m44 = Finite False 1\<rparr>"
proof -
  note i = finite_difference_int exact_difference_int
  have h0: "finite_difference (Finite False 1) (Finite False 3)"
    by (simp add: i)
  have h1: "exact_difference (Finite False 1) (Finite False 3)"
    by (simp add: i)
  have h2: "Vector2f_rel finite_difference
           \<lparr>x2 = Finite False 1, y2 = Finite True 2\<rparr>
           \<lparr>x2 = Finite False 3, y2 = Finite False 5\<rparr>"
    by (simp add: Vector2f_rel_def i)
  have h3: "Vector2f_rel exact_difference
           \<lparr>x2 = Finite False 1, y2 = Finite True 2\<rparr>
           \<lparr>x2 = Finite False 3, y2 = Finite False 5\<rparr>"
    by (simp add: Vector2f_rel_def i)
  have h4: "Vector4f_rel finite_difference
           \<lparr>x4 = Finite False 1, y4 = Finite True 2, z4 = Finite False 0, w4 = Finite False 4\<rparr>
           \<lparr>x4 = Finite False 3, y4 = Finite False 5, z4 = Finite False 7, w4 = Finite True 9\<rparr>"
    by (simp add: Vector4f_rel_def i)
  have h5: "Vector4f_rel exact_difference
           \<lparr>x4 = Finite False 1, y4 = Finite True 2, z4 = Finite False 0, w4 = Finite False 4\<rparr>
           \<lparr>x4 = Finite False 3, y4 = Finite False 5, z4 = Finite False 7, w4 = Finite True 9\<rparr>"
    by (simp add: Vector4f_rel_def i)
  have h6: "Quaternionf_rel finite_difference
           \<lparr>qx = Finite False 0, qy = Finite False 0, qz = Finite False 0, qw = Finite False 1\<rparr>
           \<lparr>qx = Finite False 1, qy = Finite False 0, qz = Finite False 0, qw = Finite False 0\<rparr>"
    by (simp add: Quaternionf_rel_def i)
  have h7: "Quaternionf_rel exact_difference
           \<lparr>qx = Finite False 0, qy = Finite False 0, qz = Finite False 0, qw = Finite False 1\<rparr>
           \<lparr>qx = Finite False 1, qy = Finite False 0, qz = Finite False 0, qw = Finite False 0\<rparr>"
    by (simp add: Quaternionf_rel_def i)
  have h8: "Matrixf_rel finite_difference
           \<lparr>m11 = Finite False 1, m12 = Finite False 0, m13 = Finite False 0, m14 = Finite False 0,
              m21 = Finite False 0, m22 = Finite False 1, m23 = Finite False 0, m24 = Finite False 0,
              m31 = Finite False 0, m32 = Finite False 0, m33 = Finite False 1, m34 = Finite False 0,
              m41 = Finite False 5, m42 = Finite False 6, m43 = Finite False 7, m44 = Finite False 1\<rparr>
           \<lparr>m11 = Finite False 2, m12 = Finite True 1, m13 = Finite False 0, m14 = Finite False 0,
              m21 = Finite False 1, m22 = Finite False 2, m23 = Finite False 0, m24 = Finite False 0,
              m31 = Finite False 0, m32 = Finite False 0, m33 = Finite False 3, m34 = Finite False 0,
              m41 = Finite True 5, m42 = Finite False 8, m43 = Finite False 9, m44 = Finite False 1\<rparr>"
    by (simp add: Matrixf_rel_def i)
  have h9: "Matrixf_rel exact_difference
           \<lparr>m11 = Finite False 1, m12 = Finite False 0, m13 = Finite False 0, m14 = Finite False 0,
              m21 = Finite False 0, m22 = Finite False 1, m23 = Finite False 0, m24 = Finite False 0,
              m31 = Finite False 0, m32 = Finite False 0, m33 = Finite False 1, m34 = Finite False 0,
              m41 = Finite False 5, m42 = Finite False 6, m43 = Finite False 7, m44 = Finite False 1\<rparr>
           \<lparr>m11 = Finite False 2, m12 = Finite True 1, m13 = Finite False 0, m14 = Finite False 0,
              m21 = Finite False 1, m22 = Finite False 2, m23 = Finite False 0, m24 = Finite False 0,
              m31 = Finite False 0, m32 = Finite False 0, m33 = Finite False 3, m34 = Finite False 0,
              m41 = Finite True 5, m42 = Finite False 8, m43 = Finite False 9, m44 = Finite False 1\<rparr>"
    by (simp add: Matrixf_rel_def i)
  from h0 h1 h2 h3 h4 h5 h6 h7 h8 h9
    C8_Lerp_end_points_single_precision[where x = "Finite False 1" and y = "Finite False 3"
      and ?a2.0 = "\<lparr>x2 = Finite False 1, y2 = Finite True 2\<rparr>"
      and ?b2.0 = "\<lparr>x2 = Finite False 3, y2 = Finite False 5\<rparr>"
      and ?a4.0 = "\<lparr>x4 = Finite False 1, y4 = Finite True 2, z4 = Finite False 0, w4 = Finite False 4\<rparr>"
      and ?b4.0 = "\<lparr>x4 = Finite False 3, y4 = Finite False 5, z4 = Finite False 7, w4 = Finite True 9\<rparr>"
      and p = "\<lparr>qx = Finite False 0, qy = Finite False 0, qz = Finite False 0, qw = Finite False 1\<rparr>"
      and q = "\<lparr>qx = Finite False 1, qy = Finite False 0, qz = Finite False 0, qw = Finite False 0\<rparr>"
      and m = "\<lparr>m11 = Finite False 1, m12 = Finite False 0, m13 = Finite False 0, m14 = Finite False 0,
              m21 = Finite False 0, m22 = Finite False 1, m23 = Finite False 0, m24 = Finite False 0,
              m31 = Finite False 0, m32 = Finite False 0, m33 = Finite False 1, m34 = Finite False 0,
              m41 = Finite False 5, m42 = Finite False 6, m43 = Finite False 7, m44 = Finite False 1\<rparr>"
      and n = "\<lparr>m11 = Finite False 2, m12 = Finite True 1, m13 = Finite False 0, m14 = Finite False 0,
              m21 = Finite False 1, m22 = Finite False 2, m23 = Finite False 0, m24 = Finite False 0,
              m31 = Finite False 0, m32 = Finite False 0, m33 = Finite False 3, m34 = Finite False 0,
              m41 = Finite True 5, m42 = Finite False 8, m43 = Finite False 9, m44 = Finite False 1\<rparr>"]
  show ?thesis
    by (simp only: simp_thms)
qed

text \<open>
  C8 for all \<open>a\<close> and \<open>b\<close> does not hold. \<^verbatim>\<open>Lerp(1e8f, 1, 1)\<close> computes \<open>1 - 1e8\<close>, which
  rounds to \<open>- 1e8\<close>, and returns \<open>1e8 + (- 1e8) = 0\<close>, not 1; the same in the \<^verbatim>\<open>X\<close> component
  of a Vector4. \<^verbatim>\<open>Lerp(- 2 ^ 127, 2 ^ 127, 0)\<close> computes \<open>2 ^ 127 + 2 ^ 127\<close>, which overflows
  to infinity, then \<open>infinity * 0\<close>, which is NaN, and returns NaN, not \<open>- 2 ^ 127\<close>.
\<close>

theorem C8_Lerp_end_points_missed:
  "MathHelper_Lerpf (lit 100000000) (lit 1) (lit 1) = Finite False 0
   \<and> \<not> feq (MathHelper_Lerpf (lit 100000000) (lit 1) (lit 1)) (lit 1)
   \<and> \<not> Vector4f_eq
        (Vector4f_Lerp \<lparr>x4 = lit 100000000, y4 = lit 0, z4 = lit 0, w4 = lit 0\<rparr>
           \<lparr>x4 = lit 1, y4 = lit 0, z4 = lit 0, w4 = lit 0\<rparr> (lit 1))
        \<lparr>x4 = lit 1, y4 = lit 0, z4 = lit 0, w4 = lit 0\<rparr>
   \<and> MathHelper_Lerpf (lit (- 170141183460469231731687303715884105728))
          (lit 170141183460469231731687303715884105728) (lit 0) = NaN
   \<and> \<not> feq (MathHelper_Lerpf (lit (- 170141183460469231731687303715884105728))
          (lit 170141183460469231731687303715884105728) (lit 0))
        (lit (- 170141183460469231731687303715884105728))"
  by (simp only: Lerpf_1e8 Lerpf_overflow Vector4f_eq_def Vector4f_Lerp_def Vector4f.simps)
     (simp add: lit_1 sval_def)

subsection \<open>Decompose\<close>



subsection \<open>Equality\<close>

text \<open>
  C10: \<^verbatim>\<open>a == b\<close> on quaternions holds exactly when each of the four differences
  \<open>|a.X - b.X|\<close>, \<open>|a.Y - b.Y|\<close>, \<open>|a.Z - b.Z|\<close>, \<open>|a.W - b.W|\<close> is below the current value
  of \<^verbatim>\<open>MathHelper::Epsilon\<close>, while \<^verbatim>\<open>==\<close> on Vector2, Vector3, Vector4 and Matrix compares
  the components exactly, which is equality of the values.
\<close>

theorem C10_equality_operators:
  "(Quaternion_eq Epsilon a b \<longleftrightarrow>
      \<bar>QX a - QX b\<bar> < Epsilon \<and> \<bar>QY a - QY b\<bar> < Epsilon
      \<and> \<bar>QZ a - QZ b\<bar> < Epsilon \<and> \<bar>QW a - QW b\<bar> < Epsilon)
   \<and> (Vector2_eq u2 v2 \<longleftrightarrow> u2 = v2)
   \<and> (Vector3_eq u3 v3 \<longleftrightarrow> u3 = v3)
   \<and> (Vector4_eq u4 v4 \<longleftrightarrow> u4 = v4)
   \<and> (Matrix_eq m n \<longleftrightarrow> m = n)"
  by (auto simp: Quaternion_eq_def EqualWithinEpsilon_def Vector2_eq_def Vector3_eq_def
      Vector4_eq_def Matrix_eq_def)

text \<open>
  The same two quaternions, \<open>1 / 20\<close> apart in \<^verbatim>\<open>X\<close>, are equal under the tolerance
  \<open>1 / 10\<close> and different under \<open>1 / 100\<close>; as vectors the two values are different.
\<close>

theorem C10_equality_witness:
  "Quaternion_eq (1 / 10) \<lparr>QX = 0, QY = 0, QZ = 0, QW = 1\<rparr> \<lparr>QX = 1 / 20, QY = 0, QZ = 0, QW = 1\<rparr>
   \<and> \<not> Quaternion_eq (1 / 100) \<lparr>QX = 0, QY = 0, QZ = 0, QW = 1\<rparr>
         \<lparr>QX = 1 / 20, QY = 0, QZ = 0, QW = 1\<rparr>
   \<and> \<not> Vector4_eq \<lparr>X4 = 0, Y4 = 0, Z4 = 0, W4 = 1\<rparr> \<lparr>X4 = 1 / 20, Y4 = 0, Z4 = 0, W4 = 1\<rparr>"
  using
    C10_equality_operators[where Epsilon = "1 / 10"
      and a = "\<lparr>QX = 0, QY = 0, QZ = 0, QW = 1\<rparr>"
      and b = "\<lparr>QX = 1 / 20, QY = 0, QZ = 0, QW = 1\<rparr>"
      and ?u4.0 = "\<lparr>X4 = 0, Y4 = 0, Z4 = 0, W4 = 1\<rparr>"
      and ?v4.0 = "\<lparr>X4 = 1 / 20, Y4 = 0, Z4 = 0, W4 = 1\<rparr>"]
    C10_equality_operators[where Epsilon = "1 / 100"
      and a = "\<lparr>QX = 0, QY = 0, QZ = 0, QW = 1\<rparr>"
      and b = "\<lparr>QX = 1 / 20, QY = 0, QZ = 0, QW = 1\<rparr>"]
  by simp

end
